theory Spec2Isabelle
  imports Complex_Main
begin

section \<open>The colour library: ALEXA Wide Gamut RGB and the Blackmagic colourspaces\<close>

text \<open>
  The development embeds \<^verbatim>\<open>colour/dataset/colourspaces/rgb/alexa_wide_gamut_rgb.py\<close>
  and \<^verbatim>\<open>colour/models/rgb/datasets/blackmagic.py\<close>. Python floats are modelled by
  the reals: every decimal literal of the source stands for the rational it denotes, and
  the arithmetic is exact. Rounding and the overflow of a float are therefore outside the
  model; what the model keeps is each exception the source can raise on the way to a
  value: the chained \<^verbatim>\<open>.get\<close> on a missing key, the unpacking of \<^verbatim>\<open>None\<close>, the domain
  error of \<^verbatim>\<open>math.log10\<close>, a division by zero and the inversion of a singular matrix.
\<close>

subsection \<open>Exceptions\<close>

datatype error =
    AttributeError
  | TypeError
  | ValueError
  | ZeroDivisionError
  | KeyError
  | IndexError
  | LinAlgError
  | UnknownColourspace

text \<open>
  Python's exception hierarchy: \<^verbatim>\<open>LookupError\<close> is the base class of \<^verbatim>\<open>KeyError\<close> and
  \<^verbatim>\<open>IndexError\<close> only.
\<close>

fun is_LookupError :: "error \<Rightarrow> bool" where
  "is_LookupError KeyError = True"
| "is_LookupError IndexError = True"
| "is_LookupError _ = False"

subsection \<open>Dictionary displays\<close>

text \<open>
  A dictionary display \<^verbatim>\<open>{k1: v1, k2: v2, ...}\<close> stores its items from left to right,
  so a key written twice keeps the value written last.
\<close>

definition dict_literal :: "('k \<times> 'v) list \<Rightarrow> ('k \<rightharpoonup> 'v)" where
  "dict_literal kvs = foldl (\<lambda>m (k, v). m(k \<mapsto> v)) Map.empty kvs"

subsection \<open>The Log C conversion table\<close>

text \<open>
  One entry of the table: \<^verbatim>\<open>(cut, a, b, c, d, e, f, ecutf)\<close>.
\<close>

type_synonym coefficients = "real \<times> real \<times> real \<times> real \<times> real \<times> real \<times> real \<times> real"

text \<open>
  The four inner dictionaries of \<^verbatim>\<open>ALEXA_LOG_C_CURVE_CONVERSION_DATA\<close>, named after the
  method key and the source line where each starts.
\<close>

definition NSS_line_73 :: "int \<rightharpoonup> coefficients" where
  "NSS_line_73 = dict_literal
    [(160, (0.004680, 40.0, - 0.076072, 0.269036, 0.381991, 42.062665, - 0.071569, 0.125266)),
     (200, (0.004597, 50.0, - 0.118740, 0.266007, 0.382478, 51.986387, - 0.110339, 0.128643)),
     (250, (0.004518, 62.5, - 0.171260, 0.262978, 0.382966, 64.243053, - 0.158224, 0.132021)),
     (320, (0.004436, 80.0, - 0.243808, 0.259627, 0.383508, 81.183335, - 0.224409, 0.135761)),
     (400, (0.004369, 100.0, - 0.325820, 0.256598, 0.383999, 100.295280, - 0.299079, 0.139142)),
     (500, (0.004309, 125.0, - 0.427461, 0.253569, 0.384493, 123.889239, - 0.391261, 0.142526)),
     (640, (0.004249, 160.0, - 0.568709, 0.250219, 0.385040, 156.482680, - 0.518605, 0.146271)),
     (800, (0.004201, 200.0, - 0.729169, 0.247190, 0.385537, 193.235573, - 0.662201, 0.149658)),
     (1000, (0.004160, 250.0, - 0.928805, 0.244161, 0.386036, 238.584745, - 0.839385, 0.153047)),
     (1280, (0.004120, 320.0, - 1.207168, 0.240810, 0.386590, 301.197380, - 1.084020, 0.156799)),
     (1600, (0.004088, 400.0, - 1.524256, 0.237781, 0.387093, 371.761171, - 1.359723, 0.160192))]"

definition LSEF_line_85 :: "int \<rightharpoonup> coefficients" where
  "LSEF_line_85 = dict_literal
    [(160, (0.005561, 5.555556, 0.080216, 0.269036, 0.381991, 5.842037, 0.092778, 0.125266)),
     (200, (0.006208, 5.555556, 0.076621, 0.266007, 0.382478, 5.776265, 0.092782, 0.128643)),
     (250, (0.006871, 5.555556, 0.072941, 0.262978, 0.382966, 5.710494, 0.092786, 0.132021)),
     (320, (0.007622, 5.555556, 0.068768, 0.259627, 0.383508, 5.637732, 0.092791, 0.135761)),
     (400, (0.008318, 5.555556, 0.064901, 0.256598, 0.383999, 5.571960, 0.092795, 0.139142)),
     (500, (0.009031, 5.555556, 0.060939, 0.253569, 0.384493, 5.506188, 0.092800, 0.142526)),
     (640, (0.009840, 5.555556, 0.056443, 0.250219, 0.385040, 5.433426, 0.092805, 0.146271)),
     (800, (0.010591, 5.555556, 0.052272, 0.247190, 0.385537, 5.367655, 0.092809, 0.149658)),
     (1000, (0.011361, 5.555556, 0.047996, 0.244161, 0.386036, 5.301883, 0.092814, 0.153047)),
     (1280, (0.012235, 5.555556, 0.043137, 0.240810, 0.386590, 5.229121, 0.092819, 0.156799)),
     (1600, (0.013047, 5.555556, 0.038625, 0.237781, 0.387093, 5.163350, 0.092824, 0.16019))]"

definition NSS_line_108 :: "int \<rightharpoonup> coefficients" where
  "NSS_line_108 = dict_literal
    [(160, (0.003907, 36.439829, - 0.053366, 0.269035, 0.391007, 45.593473, - 0.069772, 0.10836)),
     (200, (0.003907, 45.549786, - 0.088959, 0.266007, 0.391007, 55.709581, - 0.106114, 0.11154)),
     (250, (0.003907, 56.937232, - 0.133449, 0.262978, 0.391007, 67.887153, - 0.150510, 0.11472)),
     (320, (0.003907, 72.879657, - 0.195737, 0.259627, 0.391007, 84.167616, - 0.210597, 0.11824)),
     (400, (0.003907, 91.099572, - 0.266922, 0.256598, 0.391007, 101.811426, - 0.276349, 0.12142)),
     (500, (0.003907, 113.874465, - 0.355903, 0.253569, 0.391007, 122.608379, - 0.354421, 0.12461)),
     (640, (0.003907, 145.759315, - 0.480477, 0.250218, 0.391007, 149.703304, - 0.456760, 0.12813)),
     (800, (0.003907, 182.199144, - 0.622848, 0.247189, 0.391007, 178.216873, - 0.564981, 0.13131)),
     (1000, (0.003907, 227.748930, - 0.800811, 0.244161, 0.391007, 210.785040, - 0.689043, 0.13449)),
     (1280, (0.003907, 291.518630, - 1.049959, 0.240810, 0.391007, 251.689459, - 0.845336, 0.13801)),
     (1600, (0.003907, 364.398287, - 1.334700, 0.237781, 0.391007, 293.073575, - 1.003841, 0.14119))]"

definition LSEF_line_138 :: "int \<rightharpoonup> coefficients" where
  "LSEF_line_138 = dict_literal
    [(160, (0.000000, 5.061087, 0.089004, 0.269035, 0.391007, 6.332427, 0.108361, 0.108361)),
     (200, (0.000000, 5.061087, 0.089004, 0.266007, 0.391007, 6.189953, 0.111543, 0.111543)),
     (250, (0.000000, 5.061087, 0.089004, 0.262978, 0.391007, 6.034414, 0.114725, 0.114725)),
     (320, (0.000000, 5.061087, 0.089004, 0.259627, 0.391007, 5.844973, 0.118246, 0.118246)),
     (400, (0.000000, 5.061087, 0.089004, 0.256598, 0.391007, 5.656190, 0.121428, 0.121428)),
     (500, (0.000000, 5.061087, 0.089004, 0.253569, 0.391007, 5.449261, 0.124610, 0.124610)),
     (640, (0.000000, 5.061087, 0.089004, 0.250218, 0.391007, 5.198031, 0.128130, 0.128130)),
     (800, (0.000000, 5.061087, 0.089004, 0.247189, 0.391007, 4.950469, 0.131313, 0.131313)),
     (1000, (0.000000, 5.061087, 0.089004, 0.244161, 0.391007, 4.684112, 0.134495, 0.134495)),
     (1280, (0.000000, 5.061087, 0.089004, 0.240810, 0.391007, 4.369609, 0.138015, 0.138015)),
     (1600, (0.000000, 5.061087, 0.089004, 0.237781, 0.391007, 4.070466, 0.141197, 0.14119))]"

text \<open>
  The two firmware blocks, starting at lines 73 and 108 of the source. Both are written
  under the key \<^verbatim>\<open>"SUP 3.x"\<close>.
\<close>

definition firmware_block_line_73 :: "string \<rightharpoonup> (int \<rightharpoonup> coefficients)" where
  "firmware_block_line_73 = dict_literal
    [(''Normalised Sensor Signal'', NSS_line_73),
     (''Linear Scene Exposure Factor'', LSEF_line_85)]"

definition firmware_block_line_108 :: "string \<rightharpoonup> (int \<rightharpoonup> coefficients)" where
  "firmware_block_line_108 = dict_literal
    [(''Normalised Sensor Signal'', NSS_line_108),
     (''Linear Scene Exposure Factor'', LSEF_line_138)]"

definition ALEXA_LOG_C_CURVE_CONVERSION_DATA ::
  "string \<rightharpoonup> (string \<rightharpoonup> (int \<rightharpoonup> coefficients))" where
  "ALEXA_LOG_C_CURVE_CONVERSION_DATA = dict_literal
    [(''SUP 3.x'', firmware_block_line_73),
     (''SUP 3.x'', firmware_block_line_108)]"

subsection \<open>The transfer functions\<close>

text \<open>
  \<^verbatim>\<open>ALEXA_LOG_C_CURVE_CONVERSION_DATA.get(firmware).get(method).get(EI)\<close> followed by the
  unpacking into eight names. \<^verbatim>\<open>dict.get\<close> returns \<^verbatim>\<open>None\<close> for a missing key; the next
  \<^verbatim>\<open>.get\<close> on \<^verbatim>\<open>None\<close> raises \<^verbatim>\<open>AttributeError\<close>, and unpacking \<^verbatim>\<open>None\<close> raises
  \<^verbatim>\<open>TypeError\<close>.
\<close>

definition conversion_data_get :: "string \<Rightarrow> string \<Rightarrow> int \<Rightarrow> error + coefficients" where
  "conversion_data_get firmware method EI =
     (case ALEXA_LOG_C_CURVE_CONVERSION_DATA firmware of
        None \<Rightarrow> Inl AttributeError
      | Some by_method \<Rightarrow>
          (case by_method method of
             None \<Rightarrow> Inl AttributeError
           | Some by_EI \<Rightarrow>
               (case by_EI EI of
                  None \<Rightarrow> Inl TypeError
                | Some t \<Rightarrow> Inr t)))"

text \<open>
  \<^verbatim>\<open>math.log10\<close> raises \<^verbatim>\<open>ValueError\<close> outside its domain; float division raises
  \<^verbatim>\<open>ZeroDivisionError\<close> on a zero divisor; \<^verbatim>\<open>math.pow(10, y)\<close> is defined for every \<open>y\<close>.
\<close>

definition math_log10 :: "real \<Rightarrow> error + real" where
  "math_log10 x = (if 0 < x then Inr (log 10 x) else Inl ValueError)"

definition float_div :: "real \<Rightarrow> real \<Rightarrow> error + real" where
  "float_div x y = (if y = 0 then Inl ZeroDivisionError else Inr (x / y))"

definition math_pow :: "real \<Rightarrow> real \<Rightarrow> real" where
  "math_pow x y = x powr y"

text \<open>
  \<^verbatim>\<open>return c * math.log10(a * value + b) + d if value > cut else ecutf\<close>
\<close>

definition alexa_wide_gamut_rgb_transfer_function ::
  "real \<Rightarrow> string \<Rightarrow> string \<Rightarrow> int \<Rightarrow> error + real" where
  "alexa_wide_gamut_rgb_transfer_function value firmware method EI =
     (case conversion_data_get firmware method EI of
        Inl err \<Rightarrow> Inl err
      | Inr (cut', a, b, c, d, e, f, ecutf) \<Rightarrow>
          if value > cut'
          then (case math_log10 (a * value + b) of
                  Inl err \<Rightarrow> Inl err
                | Inr l \<Rightarrow> Inr (c * l + d))
          else Inr ecutf)"

text \<open>
  \<^verbatim>\<open>return (math.pow(10, (value - d) / c) - b) / a if value > ecutf else (value - f) / e\<close>
\<close>

definition alexa_wide_gamut_rgb_inverse_transfer_function ::
  "real \<Rightarrow> string \<Rightarrow> string \<Rightarrow> int \<Rightarrow> error + real" where
  "alexa_wide_gamut_rgb_inverse_transfer_function value firmware method EI =
     (case conversion_data_get firmware method EI of
        Inl err \<Rightarrow> Inl err
      | Inr (cut', a, b, c, d, e, f, ecutf) \<Rightarrow>
          if value > ecutf
          then (case float_div (value - d) c of
                  Inl err \<Rightarrow> Inl err
                | Inr y \<Rightarrow> float_div (math_pow 10 y - b) a)
          else float_div (value - f) e)"

text \<open>
  The composition the round-trip property speaks about: encode, then decode the result
  under the same configuration.
\<close>

definition decode_encode :: "real \<Rightarrow> string \<Rightarrow> string \<Rightarrow> int \<Rightarrow> error + real" where
  "decode_encode v firmware method EI =
     (case alexa_wide_gamut_rgb_transfer_function v firmware method EI of
        Inl err \<Rightarrow> Inl err
      | Inr y \<Rightarrow> alexa_wide_gamut_rgb_inverse_transfer_function y firmware method EI)"

text \<open>
  What the arithmetic of the two functions needs from an entry: a positive slope \<open>a\<close>, a
  positive logarithm argument at the crossover, and non-zero divisors \<open>c\<close> and \<open>e\<close>.
\<close>

definition well_formed :: "coefficients \<Rightarrow> bool" where
  "well_formed t = (case t of (cut', a, b, c, d, e, f, ecutf) \<Rightarrow>
      0 < a \<and> 0 < a * cut' + b \<and> c \<noteq> 0 \<and> e \<noteq> 0)"

text \<open>
  What the round trip needs from an entry for every value from mid grey (0.18) upwards:
  the value lies above the crossover, and the logarithmic branch stays above \<open>ecutf\<close>.
\<close>

definition reaches_log_segment :: "coefficients \<Rightarrow> bool" where
  "reaches_log_segment t = (case t of (cut', a, b, c, d, e, f, ecutf) \<Rightarrow>
      0 < c \<and> ecutf < d - c \<and> cut' < 0.18 \<and> 1 / 10 \<le> a * 0.18 + b)"

subsection \<open>Matrices\<close>

text \<open>
  The arrays of the two modules have fixed shapes: a chromaticity is a 2-vector, a set of
  primaries is a \<open>3 \<times> 2\<close> array (one row per primary), a transform is a \<open>3 \<times> 3\<close>
  array. A matrix is the triple of its rows.
\<close>

type_synonym chromaticity = "real \<times> real"

type_synonym primaries = "chromaticity \<times> chromaticity \<times> chromaticity"

type_synonym vec3 = "real \<times> real \<times> real"

type_synonym mat3 = "vec3 \<times> vec3 \<times> vec3"

text \<open>
  \<^verbatim>\<open>numpy.matrix([...]).reshape((3, 2))\<close> and \<^verbatim>\<open>.reshape((3, 3))\<close>: the flat list is cut into
  rows in order; \<^verbatim>\<open>reshape\<close> raises \<^verbatim>\<open>ValueError\<close> when the number of elements does not fit
  the shape.
\<close>

fun reshape_3_2 :: "real list \<Rightarrow> error + primaries" where
  "reshape_3_2 [x1, y1, x2, y2, x3, y3] = Inr ((x1, y1), (x2, y2), (x3, y3))"
| "reshape_3_2 _ = Inl ValueError"

fun reshape_3_3 :: "real list \<Rightarrow> error + mat3" where
  "reshape_3_3 [m11, m12, m13, m21, m22, m23, m31, m32, m33] =
     Inr ((m11, m12, m13), (m21, m22, m23), (m31, m32, m33))"
| "reshape_3_3 _ = Inl ValueError"

definition identity3 :: mat3 where
  "identity3 = ((1, 0, 0), (0, 1, 0), (0, 0, 1))"

definition dot :: "mat3 \<Rightarrow> mat3 \<Rightarrow> mat3" where
  "dot A B =
     (case A of ((a11, a12, a13), (a21, a22, a23), (a31, a32, a33)) \<Rightarrow>
      case B of ((b11, b12, b13), (b21, b22, b23), (b31, b32, b33)) \<Rightarrow>
        ((a11 * b11 + a12 * b21 + a13 * b31,
          a11 * b12 + a12 * b22 + a13 * b32,
          a11 * b13 + a12 * b23 + a13 * b33),
         (a21 * b11 + a22 * b21 + a23 * b31,
          a21 * b12 + a22 * b22 + a23 * b32,
          a21 * b13 + a22 * b23 + a23 * b33),
         (a31 * b11 + a32 * b21 + a33 * b31,
          a31 * b12 + a32 * b22 + a33 * b32,
          a31 * b13 + a32 * b23 + a33 * b33)))"

definition dot_vec :: "mat3 \<Rightarrow> vec3 \<Rightarrow> vec3" where
  "dot_vec A v =
     (case A of ((a11, a12, a13), (a21, a22, a23), (a31, a32, a33)) \<Rightarrow>
      case v of (v1, v2, v3) \<Rightarrow>
        (a11 * v1 + a12 * v2 + a13 * v3,
         a21 * v1 + a22 * v2 + a23 * v3,
         a31 * v1 + a32 * v2 + a33 * v3))"

definition diagflat :: "vec3 \<Rightarrow> mat3" where
  "diagflat v = (case v of (v1, v2, v3) \<Rightarrow> ((v1, 0, 0), (0, v2, 0), (0, 0, v3)))"

definition det3 :: "mat3 \<Rightarrow> real" where
  "det3 A =
     (case A of ((a11, a12, a13), (a21, a22, a23), (a31, a32, a33)) \<Rightarrow>
        a11 * (a22 * a33 - a23 * a32)
        - a12 * (a21 * a33 - a23 * a31)
        + a13 * (a21 * a32 - a22 * a31))"

text \<open>
  \<^verbatim>\<open>numpy.linalg.inv\<close> (and \<^verbatim>\<open>numpy.matrix.getI\<close> on a square matrix) raises
  \<^verbatim>\<open>LinAlgError\<close> for a singular matrix. In exact arithmetic the inverse of a regular matrix
  is unique, so it is written here by the adjugate.
\<close>

definition linalg_inv :: "mat3 \<Rightarrow> error + mat3" where
  "linalg_inv A =
     (case A of ((a11, a12, a13), (a21, a22, a23), (a31, a32, a33)) \<Rightarrow>
        if det3 A = 0 then Inl LinAlgError
        else Inr
          (((a22 * a33 - a23 * a32) / det3 A,
            (a13 * a32 - a12 * a33) / det3 A,
            (a12 * a23 - a13 * a22) / det3 A),
           ((a23 * a31 - a21 * a33) / det3 A,
            (a11 * a33 - a13 * a31) / det3 A,
            (a13 * a21 - a11 * a23) / det3 A),
           ((a21 * a32 - a22 * a31) / det3 A,
            (a12 * a31 - a11 * a32) / det3 A,
            (a11 * a22 - a12 * a21) / det3 A)))"

text \<open>
  Entrywise closeness of two matrices: every entry of \<open>A\<close> is less than \<open>eps\<close> away from
  the entry of \<open>B\<close> at the same place.
\<close>

definition close_to :: "real \<Rightarrow> mat3 \<Rightarrow> mat3 \<Rightarrow> bool" where
  "close_to eps A B =
     (case A of ((a11, a12, a13), (a21, a22, a23), (a31, a32, a33)) \<Rightarrow>
      case B of ((b11, b12, b13), (b21, b22, b23), (b31, b32, b33)) \<Rightarrow>
        \<bar>a11 - b11\<bar> < eps \<and> \<bar>a12 - b12\<bar> < eps \<and> \<bar>a13 - b13\<bar> < eps \<and>
        \<bar>a21 - b21\<bar> < eps \<and> \<bar>a22 - b22\<bar> < eps \<and> \<bar>a23 - b23\<bar> < eps \<and>
        \<bar>a31 - b31\<bar> < eps \<and> \<bar>a32 - b32\<bar> < eps \<and> \<bar>a33 - b33\<bar> < eps)"

text \<open>
  Sequencing of two steps of which the first may raise.
\<close>

definition and_then :: "error + 'a \<Rightarrow> ('a \<Rightarrow> error + 'b) \<Rightarrow> error + 'b" where
  "and_then r k = (case r of Inl err \<Rightarrow> Inl err | Inr x \<Rightarrow> k x)"

subsection \<open>The normalised primary matrix\<close>

text \<open>
  Modelled from the spec: \<^verbatim>\<open>normalised_primary_matrix\<close> is imported by
  \<^verbatim>\<open>blackmagic.py\<close> from \<^verbatim>\<open>colour.models.rgb\<close>, which is not among the sources. The
  specification describes it: the primaries' chromaticities are projected to \<open>XYZ\<close> (the
  columns \<open>(x, y, 1 - x - y)\<close>), the whitepoint is taken at unit luminance
  (\<open>(x / y, 1, (1 - x - y) / y)\<close>), and a diagonal scaling of the columns is solved for so
  that the sum of the scaled columns is the whitepoint.
\<close>

definition xy_to_XYZ :: "chromaticity \<Rightarrow> error + vec3" where
  "xy_to_XYZ w =
     (case w of (x, y) \<Rightarrow>
        if y = 0 then Inl ZeroDivisionError else Inr (x / y, 1, (1 - x - y) / y))"

definition primaries_to_XYZ :: "primaries \<Rightarrow> mat3" where
  "primaries_to_XYZ P =
     (case P of ((xr, yr), (xg, yg), (xb, yb)) \<Rightarrow>
        ((xr, xg, xb), (yr, yg, yb), (1 - xr - yr, 1 - xg - yg, 1 - xb - yb)))"

definition normalised_primary_matrix :: "primaries \<Rightarrow> chromaticity \<Rightarrow> error + mat3" where
  "normalised_primary_matrix P w =
     and_then (xy_to_XYZ w) (\<lambda>W.
     and_then (linalg_inv (primaries_to_XYZ P)) (\<lambda>P_inv.
       Inr (dot (primaries_to_XYZ P) (diagflat (dot_vec P_inv W)))))"

subsection \<open>Colourspaces\<close>

text \<open>
  Modelled from the spec: the classes \<^verbatim>\<open>Colourspace\<close> and \<^verbatim>\<open>RGB_Colourspace\<close> are imported,
  not defined, by the two modules. The specification describes an immutable record of the
  constructor's arguments; the transfer functions of a colourspace are kept by name, since
  the Blackmagic ones are imported too. \<^verbatim>\<open>Colourspace\<close> takes no whitepoint name.
\<close>

datatype transfer_function =
    ALEXA_WIDE_GAMUT_RGB_TRANSFER_FUNCTION
  | ALEXA_WIDE_GAMUT_RGB_INVERSE_TRANSFER_FUNCTION
  | log_encoding_BMDFilm
  | log_decoding_BMDFilm
  | log_encoding_BMD4KFilm
  | log_decoding_BMD4KFilm
  | log_encoding_BMD46KFilm
  | log_decoding_BMD46KFilm
  | log_encoding_BMDPocket4KFilmV4
  | log_decoding_BMDPocket4KFilmV4

record colourspace =
  name :: string
  primaries :: primaries
  whitepoint :: chromaticity
  whitepoint_name :: "string option"
  matrix_RGB_to_XYZ :: mat3
  matrix_XYZ_to_RGB :: mat3
  cctf_encoding :: transfer_function
  cctf_decoding :: transfer_function

definition Colourspace ::
  "string \<Rightarrow> primaries \<Rightarrow> chromaticity \<Rightarrow> mat3 \<Rightarrow> mat3 \<Rightarrow>
   transfer_function \<Rightarrow> transfer_function \<Rightarrow> colourspace" where
  "Colourspace n P w M M_inv enc dec =
     \<lparr>name = n, primaries = P, whitepoint = w, whitepoint_name = None,
      matrix_RGB_to_XYZ = M, matrix_XYZ_to_RGB = M_inv,
      cctf_encoding = enc, cctf_decoding = dec\<rparr>"

definition RGB_Colourspace ::
  "string \<Rightarrow> primaries \<Rightarrow> chromaticity \<Rightarrow> string \<Rightarrow> mat3 \<Rightarrow> mat3 \<Rightarrow>
   transfer_function \<Rightarrow> transfer_function \<Rightarrow> colourspace" where
  "RGB_Colourspace n P w w_name M M_inv enc dec =
     \<lparr>name = n, primaries = P, whitepoint = w, whitepoint_name = Some w_name,
      matrix_RGB_to_XYZ = M, matrix_XYZ_to_RGB = M_inv,
      cctf_encoding = enc, cctf_decoding = dec\<rparr>"

subsubsection \<open>ALEXA Wide Gamut RGB\<close>

text \<open>
  The illuminant table is not among the sources. Its entry for D65 under the CIE 1931
  2 degree standard observer, which \<^verbatim>\<open>ALEXA_WIDE_GAMUT_RGB_WHITEPOINT\<close> and the whitepoints of
  three Blackmagic colourspaces look up, is the parameter \<open>D65\<close> of everything that
  depends on it.
\<close>

definition ALEXA_WIDE_GAMUT_RGB_PRIMARIES :: "error + primaries" where
  "ALEXA_WIDE_GAMUT_RGB_PRIMARIES =
     reshape_3_2 [0.6840, 0.3130,
                  0.2210, 0.8480,
                  0.0861, - 0.1020]"

definition ALEXA_WIDE_GAMUT_RGB_WHITEPOINT :: "chromaticity \<Rightarrow> chromaticity" where
  "ALEXA_WIDE_GAMUT_RGB_WHITEPOINT D65 = D65"

definition ALEXA_WIDE_GAMUT_RGB_TO_XYZ_MATRIX :: "error + mat3" where
  "ALEXA_WIDE_GAMUT_RGB_TO_XYZ_MATRIX =
     reshape_3_3 [0.638008, 0.214704, 0.097744,
                  0.291954, 0.823841, - 0.115795,
                  0.002798, - 0.067034, 1.153294]"

definition XYZ_TO_ALEXA_WIDE_GAMUT_RGB_MATRIX :: "error + mat3" where
  "XYZ_TO_ALEXA_WIDE_GAMUT_RGB_MATRIX =
     and_then ALEXA_WIDE_GAMUT_RGB_TO_XYZ_MATRIX linalg_inv"

definition ALEXA_WIDE_GAMUT_RGB_COLOURSPACE :: "chromaticity \<Rightarrow> error + colourspace" where
  "ALEXA_WIDE_GAMUT_RGB_COLOURSPACE D65 =
     and_then ALEXA_WIDE_GAMUT_RGB_PRIMARIES (\<lambda>P.
     and_then ALEXA_WIDE_GAMUT_RGB_TO_XYZ_MATRIX (\<lambda>M.
     and_then XYZ_TO_ALEXA_WIDE_GAMUT_RGB_MATRIX (\<lambda>M_inv.
       Inr (Colourspace ''ALEXA Wide Gamut RGB''
              P
              (ALEXA_WIDE_GAMUT_RGB_WHITEPOINT D65)
              M
              M_inv
              ALEXA_WIDE_GAMUT_RGB_TRANSFER_FUNCTION
              ALEXA_WIDE_GAMUT_RGB_INVERSE_TRANSFER_FUNCTION))))"

subsubsection \<open>Blackmagic\<close>

text \<open>
  Three of the six colourspaces write their whitepoint ("BMD White") as a literal; the
  other three look D65 up in the illuminant table.
\<close>

definition BMD_FILM_V1_PRIMARIES :: primaries where
  "BMD_FILM_V1_PRIMARIES =
     ((0.9173, 0.2502), (0.2833, 1.7072), (0.0856, - 0.0708))"

definition BMD_FILM_V1_WHITEPOINT_NAME :: string where
  "BMD_FILM_V1_WHITEPOINT_NAME = ''BMD White''"

definition BMD_FILM_V1_WHITEPOINT :: "chromaticity" where
  "BMD_FILM_V1_WHITEPOINT = (0.3135, 0.3305)"

definition BMD_FILM_V1_TO_XYZ_MATRIX :: "error + mat3" where
  "BMD_FILM_V1_TO_XYZ_MATRIX =
     normalised_primary_matrix BMD_FILM_V1_PRIMARIES BMD_FILM_V1_WHITEPOINT"

definition XYZ_TO_BMD_FILM_V1_MATRIX :: "error + mat3" where
  "XYZ_TO_BMD_FILM_V1_MATRIX =
     and_then BMD_FILM_V1_TO_XYZ_MATRIX linalg_inv"

definition RGB_COLOURSPACE_BMD_FILM_V1 :: "error + colourspace" where
  "RGB_COLOURSPACE_BMD_FILM_V1 =
     and_then BMD_FILM_V1_TO_XYZ_MATRIX (\<lambda>M.
     and_then XYZ_TO_BMD_FILM_V1_MATRIX (\<lambda>M_inv.
       Inr (RGB_Colourspace ''BMD Film V1''
              BMD_FILM_V1_PRIMARIES
              BMD_FILM_V1_WHITEPOINT
              BMD_FILM_V1_WHITEPOINT_NAME
              M
              M_inv
              log_encoding_BMDFilm
              log_decoding_BMDFilm)))"

definition BMD_4K_FILM_V1_PRIMARIES :: primaries where
  "BMD_4K_FILM_V1_PRIMARIES =
     ((0.7422, 0.2859), (0.4140, 1.3035), (0.0342, - 0.0833))"

definition BMD_4K_FILM_V1_WHITEPOINT_NAME :: string where
  "BMD_4K_FILM_V1_WHITEPOINT_NAME = ''BMD White''"

definition BMD_4K_FILM_V1_WHITEPOINT :: "chromaticity" where
  "BMD_4K_FILM_V1_WHITEPOINT = (0.3135, 0.3305)"

definition BMD_4K_FILM_V1_TO_XYZ_MATRIX :: "error + mat3" where
  "BMD_4K_FILM_V1_TO_XYZ_MATRIX =
     normalised_primary_matrix BMD_4K_FILM_V1_PRIMARIES BMD_4K_FILM_V1_WHITEPOINT"

definition XYZ_TO_BMD_4K_FILM_V1_MATRIX :: "error + mat3" where
  "XYZ_TO_BMD_4K_FILM_V1_MATRIX =
     and_then BMD_4K_FILM_V1_TO_XYZ_MATRIX linalg_inv"

definition RGB_COLOURSPACE_BMD_4K_FILM_V1 :: "error + colourspace" where
  "RGB_COLOURSPACE_BMD_4K_FILM_V1 =
     and_then BMD_4K_FILM_V1_TO_XYZ_MATRIX (\<lambda>M.
     and_then XYZ_TO_BMD_4K_FILM_V1_MATRIX (\<lambda>M_inv.
       Inr (RGB_Colourspace ''BMD 4K Film V1''
              BMD_4K_FILM_V1_PRIMARIES
              BMD_4K_FILM_V1_WHITEPOINT
              BMD_4K_FILM_V1_WHITEPOINT_NAME
              M
              M_inv
              log_encoding_BMD4KFilm
              log_decoding_BMD4KFilm)))"

definition BMD_4K_FILM_V3_PRIMARIES :: primaries where
  "BMD_4K_FILM_V3_PRIMARIES =
     ((1.0625, 0.3948), (0.3689, 0.7775), (0.0956, - 0.0332))"

definition BMD_4K_FILM_V3_WHITEPOINT_NAME :: string where
  "BMD_4K_FILM_V3_WHITEPOINT_NAME = ''BMD White''"

definition BMD_4K_FILM_V3_WHITEPOINT :: "chromaticity" where
  "BMD_4K_FILM_V3_WHITEPOINT = (0.3135, 0.3305)"

definition BMD_4K_FILM_V3_TO_XYZ_MATRIX :: "error + mat3" where
  "BMD_4K_FILM_V3_TO_XYZ_MATRIX =
     normalised_primary_matrix BMD_4K_FILM_V3_PRIMARIES BMD_4K_FILM_V3_WHITEPOINT"

definition XYZ_TO_BMD_4K_FILM_V3_MATRIX :: "error + mat3" where
  "XYZ_TO_BMD_4K_FILM_V3_MATRIX =
     and_then BMD_4K_FILM_V3_TO_XYZ_MATRIX linalg_inv"

definition RGB_COLOURSPACE_BMD_4K_FILM_V3 :: "error + colourspace" where
  "RGB_COLOURSPACE_BMD_4K_FILM_V3 =
     and_then BMD_4K_FILM_V3_TO_XYZ_MATRIX (\<lambda>M.
     and_then XYZ_TO_BMD_4K_FILM_V3_MATRIX (\<lambda>M_inv.
       Inr (RGB_Colourspace ''BMD 4K Film V3''
              BMD_4K_FILM_V3_PRIMARIES
              BMD_4K_FILM_V3_WHITEPOINT
              BMD_4K_FILM_V3_WHITEPOINT_NAME
              M
              M_inv
              log_encoding_BMD4KFilm
              log_decoding_BMD4KFilm)))"

definition BMD_46K_FILM_V1_PRIMARIES :: primaries where
  "BMD_46K_FILM_V1_PRIMARIES =
     ((0.9175, 0.2983), (0.2983, 1.2835), (0.0756, - 0.0860))"

definition BMD_46K_FILM_V1_WHITEPOINT_NAME :: string where
  "BMD_46K_FILM_V1_WHITEPOINT_NAME = ''D65''"

definition BMD_46K_FILM_V1_WHITEPOINT :: "chromaticity \<Rightarrow> chromaticity" where
  "BMD_46K_FILM_V1_WHITEPOINT D65 = D65"

definition BMD_46K_FILM_V1_TO_XYZ_MATRIX :: "chromaticity \<Rightarrow> error + mat3" where
  "BMD_46K_FILM_V1_TO_XYZ_MATRIX D65 =
     normalised_primary_matrix BMD_46K_FILM_V1_PRIMARIES (BMD_46K_FILM_V1_WHITEPOINT D65)"

definition XYZ_TO_BMD_46K_FILM_V1_MATRIX :: "chromaticity \<Rightarrow> error + mat3" where
  "XYZ_TO_BMD_46K_FILM_V1_MATRIX D65 =
     and_then (BMD_46K_FILM_V1_TO_XYZ_MATRIX D65) linalg_inv"

definition RGB_COLOURSPACE_BMD_46K_FILM_V1 :: "chromaticity \<Rightarrow> error + colourspace" where
  "RGB_COLOURSPACE_BMD_46K_FILM_V1 D65 =
     and_then (BMD_46K_FILM_V1_TO_XYZ_MATRIX D65) (\<lambda>M.
     and_then (XYZ_TO_BMD_46K_FILM_V1_MATRIX D65) (\<lambda>M_inv.
       Inr (RGB_Colourspace ''BMD 46K Film V1''
              BMD_46K_FILM_V1_PRIMARIES
              (BMD_46K_FILM_V1_WHITEPOINT D65)
              BMD_46K_FILM_V1_WHITEPOINT_NAME
              M
              M_inv
              log_encoding_BMD46KFilm
              log_decoding_BMD46KFilm)))"

definition BMD_46K_FILM_V3_PRIMARIES :: primaries where
  "BMD_46K_FILM_V3_PRIMARIES =
     ((0.8608, 0.3689), (0.3282, 0.6156), (0.0783, - 0.0233))"

definition BMD_46K_FILM_V3_WHITEPOINT_NAME :: string where
  "BMD_46K_FILM_V3_WHITEPOINT_NAME = ''D65''"

definition BMD_46K_FILM_V3_WHITEPOINT :: "chromaticity \<Rightarrow> chromaticity" where
  "BMD_46K_FILM_V3_WHITEPOINT D65 = D65"

definition BMD_46K_FILM_V3_TO_XYZ_MATRIX :: "chromaticity \<Rightarrow> error + mat3" where
  "BMD_46K_FILM_V3_TO_XYZ_MATRIX D65 =
     normalised_primary_matrix BMD_46K_FILM_V3_PRIMARIES (BMD_46K_FILM_V3_WHITEPOINT D65)"

definition XYZ_TO_BMD_46K_FILM_V3_MATRIX :: "chromaticity \<Rightarrow> error + mat3" where
  "XYZ_TO_BMD_46K_FILM_V3_MATRIX D65 =
     and_then (BMD_46K_FILM_V3_TO_XYZ_MATRIX D65) linalg_inv"

definition RGB_COLOURSPACE_BMD_46K_FILM_V3 :: "chromaticity \<Rightarrow> error + colourspace" where
  "RGB_COLOURSPACE_BMD_46K_FILM_V3 D65 =
     and_then (BMD_46K_FILM_V3_TO_XYZ_MATRIX D65) (\<lambda>M.
     and_then (XYZ_TO_BMD_46K_FILM_V3_MATRIX D65) (\<lambda>M_inv.
       Inr (RGB_Colourspace ''BMD 46K Film V3''
              BMD_46K_FILM_V3_PRIMARIES
              (BMD_46K_FILM_V3_WHITEPOINT D65)
              BMD_46K_FILM_V3_WHITEPOINT_NAME
              M
              M_inv
              log_encoding_BMD46KFilm
              log_decoding_BMD46KFilm)))"

definition BMD_WIDE_GAMUT_V4_PRIMARIES :: primaries where
  "BMD_WIDE_GAMUT_V4_PRIMARIES =
     ((0.7177, 0.3171), (0.2280, 0.8616), (0.1006, - 0.0820))"

definition BMD_WIDE_GAMUT_V4_WHITEPOINT_NAME :: string where
  "BMD_WIDE_GAMUT_V4_WHITEPOINT_NAME = ''D65''"

definition BMD_WIDE_GAMUT_V4_WHITEPOINT :: "chromaticity \<Rightarrow> chromaticity" where
  "BMD_WIDE_GAMUT_V4_WHITEPOINT D65 = D65"

definition BMD_WIDE_GAMUT_V4_TO_XYZ_MATRIX :: "chromaticity \<Rightarrow> error + mat3" where
  "BMD_WIDE_GAMUT_V4_TO_XYZ_MATRIX D65 =
     normalised_primary_matrix BMD_WIDE_GAMUT_V4_PRIMARIES (BMD_WIDE_GAMUT_V4_WHITEPOINT D65)"

definition XYZ_TO_BMD_WIDE_GAMUT_V4_MATRIX :: "chromaticity \<Rightarrow> error + mat3" where
  "XYZ_TO_BMD_WIDE_GAMUT_V4_MATRIX D65 =
     and_then (BMD_WIDE_GAMUT_V4_TO_XYZ_MATRIX D65) linalg_inv"

definition RGB_COLOURSPACE_BMD_WIDE_GAMUT_V4 :: "chromaticity \<Rightarrow> error + colourspace" where
  "RGB_COLOURSPACE_BMD_WIDE_GAMUT_V4 D65 =
     and_then (BMD_WIDE_GAMUT_V4_TO_XYZ_MATRIX D65) (\<lambda>M.
     and_then (XYZ_TO_BMD_WIDE_GAMUT_V4_MATRIX D65) (\<lambda>M_inv.
       Inr (RGB_Colourspace ''BMD Wide Gamut V4''
              BMD_WIDE_GAMUT_V4_PRIMARIES
              (BMD_WIDE_GAMUT_V4_WHITEPOINT D65)
              BMD_WIDE_GAMUT_V4_WHITEPOINT_NAME
              M
              M_inv
              log_encoding_BMDPocket4KFilmV4
              log_decoding_BMDPocket4KFilmV4)))"

subsection \<open>The registry\<close>

text \<open>
  Modelled from the spec: the registry and its lookup are not among the sources. The
  specification describes \<^verbatim>\<open>get(name)\<close>, which returns the registered colourspace of that
  name and fails with \<^verbatim>\<open>UnknownColourspace\<close> when there is none. The registered
  colourspaces are the seven that the two modules construct, each under the name it is
  constructed with.
\<close>

definition RGB_COLOURSPACES :: "chromaticity \<Rightarrow> (string \<times> (error + colourspace)) list" where
  "RGB_COLOURSPACES D65 =
     [(''ALEXA Wide Gamut RGB'', ALEXA_WIDE_GAMUT_RGB_COLOURSPACE D65),
      (''BMD Film V1'', RGB_COLOURSPACE_BMD_FILM_V1),
      (''BMD 4K Film V1'', RGB_COLOURSPACE_BMD_4K_FILM_V1),
      (''BMD 4K Film V3'', RGB_COLOURSPACE_BMD_4K_FILM_V3),
      (''BMD 46K Film V1'', RGB_COLOURSPACE_BMD_46K_FILM_V1 D65),
      (''BMD 46K Film V3'', RGB_COLOURSPACE_BMD_46K_FILM_V3 D65),
      (''BMD Wide Gamut V4'', RGB_COLOURSPACE_BMD_WIDE_GAMUT_V4 D65)]"

definition get :: "chromaticity \<Rightarrow> string \<Rightarrow> error + colourspace" where
  "get D65 n =
     (case map_of (RGB_COLOURSPACES D65) n of
        None \<Rightarrow> Inl UnknownColourspace
      | Some cs \<Rightarrow> cs)"

section \<open>The conversion table as constructed\<close>

lemma conversion_data_firmware:
  "ALEXA_LOG_C_CURVE_CONVERSION_DATA fw =
     (if fw = ''SUP 3.x'' then Some firmware_block_line_108 else None)"
  by (simp add: ALEXA_LOG_C_CURVE_CONVERSION_DATA_def dict_literal_def)

lemma firmware_block_line_108_method:
  "firmware_block_line_108 m =
     (if m = ''Linear Scene Exposure Factor'' then Some LSEF_line_138
      else if m = ''Normalised Sensor Signal'' then Some NSS_line_108
      else None)"
  by (simp add: firmware_block_line_108_def dict_literal_def)

lemma firmware_blocks_differ: "firmware_block_line_108 \<noteq> firmware_block_line_73"
proof
  assume "firmware_block_line_108 = firmware_block_line_73"
  then have "firmware_block_line_108 ''Linear Scene Exposure Factor'' =
             firmware_block_line_73 ''Linear Scene Exposure Factor''" by simp
  then have "LSEF_line_138 = LSEF_line_85"
    by (simp add: firmware_block_line_108_def firmware_block_line_73_def dict_literal_def)
  then have "LSEF_line_138 800 = LSEF_line_85 800" by simp
  then show False by (simp add: LSEF_line_138_def LSEF_line_85_def dict_literal_def)
qed

lemma NSS_line_108_well_formed: "NSS_line_108 ei = Some t \<Longrightarrow> well_formed t"
  by (auto simp add: NSS_line_108_def dict_literal_def well_formed_def split: if_splits)

lemma LSEF_line_138_well_formed: "LSEF_line_138 ei = Some t \<Longrightarrow> well_formed t"
  by (auto simp add: LSEF_line_138_def dict_literal_def well_formed_def split: if_splits)

lemma conversion_data_get_well_formed:
  assumes "conversion_data_get fw m ei = Inr t"
  shows "well_formed t"
  using assms
  by (auto simp add: conversion_data_get_def conversion_data_firmware
      firmware_block_line_108_method
      split: if_splits option.splits
      intro: NSS_line_108_well_formed LSEF_line_138_well_formed)

lemma log_argument_positive:
  assumes "0 < a" and "0 < a * c + b" and "c < (v::real)"
  shows "0 < a * v + b"
proof -
  from assms(1,3) have "a * c < a * v" by simp
  with assms(2) show ?thesis by linarith
qed

lemma default_entry:
  "conversion_data_get ''SUP 3.x'' ''Linear Scene Exposure Factor'' 800 =
     Inr (0.000000, 5.061087, 0.089004, 0.247189, 0.391007, 4.950469, 0.131313, 0.131313)"
  by (simp add: conversion_data_get_def conversion_data_firmware
      firmware_block_line_108_method LSEF_line_138_def dict_literal_def)

lemma NSS_800_entry:
  "conversion_data_get ''SUP 3.x'' ''Normalised Sensor Signal'' 800 =
     Inr (0.003907, 182.199144, - 0.622848, 0.247189, 0.391007, 178.216873, - 0.564981, 0.13131)"
  by (simp add: conversion_data_get_def conversion_data_firmware
      firmware_block_line_108_method NSS_line_108_def dict_literal_def)

section \<open>The coefficient lookup\<close>

text \<open>
  Claim C1. For firmware "SUP 3.x", method "Linear Scene Exposure Factor" and exposure
  index 800 the lookup is claimed to yield the entry written at line 100 of the source,
  \<open>(0.010591, 5.555556, 0.052272, 0.247190, 0.385537, 5.367655, 0.092809, 0.149658)\<close>,
  and the encoding of 0.18 to be \<open>0.247190 * log10 (5.555556 * 0.18 + 0.052272) + 0.385537\<close>.
  Evaluated on the table as the source constructs it, the lookup returns the entry written
  at line 153 instead: the block that holds the claimed entry is written under the same
  key as the block that follows it, and is replaced by it. The claimed entry is still
  where the source wrote it, in the replaced block.
\<close>

theorem default_lookup_returns_line_153_entry:
  "conversion_data_get ''SUP 3.x'' ''Linear Scene Exposure Factor'' 800 =
     Inr (0.000000, 5.061087, 0.089004, 0.247189, 0.391007, 4.950469, 0.131313, 0.131313)
   \<and> conversion_data_get ''SUP 3.x'' ''Linear Scene Exposure Factor'' 800 \<noteq>
     Inr (0.010591, 5.555556, 0.052272, 0.247190, 0.385537, 5.367655, 0.092809, 0.149658)
   \<and> firmware_block_line_73 ''Linear Scene Exposure Factor'' = Some LSEF_line_85
   \<and> LSEF_line_85 800 =
     Some (0.010591, 5.555556, 0.052272, 0.247190, 0.385537, 5.367655, 0.092809, 0.149658)
   \<and> alexa_wide_gamut_rgb_transfer_function 0.18 ''SUP 3.x'' ''Linear Scene Exposure Factor'' 800 =
     Inr (0.247189 * log 10 (5.061087 * 0.18 + 0.089004) + 0.391007)"
  by (simp add: default_entry alexa_wide_gamut_rgb_transfer_function_def math_log10_def
      firmware_block_line_73_def LSEF_line_85_def dict_literal_def)

text \<open>
  Claim C2. The dictionary display writes the firmware key "SUP 3.x" twice, so the mapping
  has exactly one firmware key, bound to the second block (line 108); there is no entry
  for "SUP 2.x", and both transfer functions called with firmware "SUP 2.x" fail at the
  chained \<^verbatim>\<open>.get\<close>, whatever the value, the method and the exposure index.
\<close>

theorem conversion_data_single_firmware:
  "dom ALEXA_LOG_C_CURVE_CONVERSION_DATA = {''SUP 3.x''}
   \<and> ALEXA_LOG_C_CURVE_CONVERSION_DATA ''SUP 3.x'' = Some firmware_block_line_108
   \<and> firmware_block_line_108 \<noteq> firmware_block_line_73
   \<and> ALEXA_LOG_C_CURVE_CONVERSION_DATA ''SUP 2.x'' = None
   \<and> alexa_wide_gamut_rgb_transfer_function v ''SUP 2.x'' method EI = Inl AttributeError
   \<and> alexa_wide_gamut_rgb_inverse_transfer_function v ''SUP 2.x'' method EI = Inl AttributeError"
  by (auto simp add: conversion_data_firmware dom_def conversion_data_get_def
      firmware_blocks_differ alexa_wide_gamut_rgb_transfer_function_def
      alexa_wide_gamut_rgb_inverse_transfer_function_def)

section \<open>The piecewise curve\<close>

text \<open>
  Claim C5. For every value \<open>v\<close> and every coefficient tuple found by the lookup, the
  forward function returns \<open>c * log10 (a * v + b) + d\<close> when \<open>v > cut\<close> and the constant
  \<open>ecutf\<close> when \<open>v \<le> cut\<close>. In particular the logarithm never leaves its domain: every
  entry of the table has \<open>a > 0\<close> and \<open>a * cut + b > 0\<close>.
\<close>

theorem transfer_function_piecewise:
  assumes "conversion_data_get firmware method EI = Inr (cut', a, b, c, d, e, f, ecutf)"
  shows "alexa_wide_gamut_rgb_transfer_function v firmware method EI =
           Inr (if v > cut' then c * log 10 (a * v + b) + d else ecutf)"
proof (cases "v > cut'")
  case True
  from conversion_data_get_well_formed [OF assms]
  have "0 < a" and "0 < a * cut' + b" by (simp_all add: well_formed_def)
  with True have "0 < a * v + b" by (intro log_argument_positive [of a cut' b v]) simp_all
  with True assms show ?thesis
    by (simp add: alexa_wide_gamut_rgb_transfer_function_def math_log10_def)
next
  case False
  with assms show ?thesis
    by (simp add: alexa_wide_gamut_rgb_transfer_function_def)
qed

theorem transfer_function_piecewise_witness:
  "conversion_data_get ''SUP 3.x'' ''Linear Scene Exposure Factor'' 800 =
     Inr (0.000000, 5.061087, 0.089004, 0.247189, 0.391007, 4.950469, 0.131313, 0.131313)
   \<and> alexa_wide_gamut_rgb_transfer_function 1 ''SUP 3.x'' ''Linear Scene Exposure Factor'' 800 =
     Inr (0.247189 * log 10 5.150091 + 0.391007)
   \<and> alexa_wide_gamut_rgb_transfer_function (- 1) ''SUP 3.x'' ''Linear Scene Exposure Factor'' 800 =
     Inr 0.131313"
  using transfer_function_piecewise [OF default_entry, of 1]
    transfer_function_piecewise [OF default_entry, of "- 1"] default_entry
  by simp

text \<open>
  Claim C6. For every value \<open>v\<close> and every coefficient tuple found by the lookup, the
  inverse function returns \<open>(10 ^ ((v - d) / c) - b) / a\<close> when \<open>v > ecutf\<close> and
  \<open>(v - f) / e\<close> when \<open>v \<le> ecutf\<close>. No entry of the table has a zero divisor.
\<close>

theorem inverse_transfer_function_piecewise:
  assumes "conversion_data_get firmware method EI = Inr (cut', a, b, c, d, e, f, ecutf)"
  shows "alexa_wide_gamut_rgb_inverse_transfer_function v firmware method EI =
           Inr (if v > ecutf then (10 powr ((v - d) / c) - b) / a else (v - f) / e)"
proof -
  from conversion_data_get_well_formed [OF assms]
  have "a \<noteq> 0" and "c \<noteq> 0" and "e \<noteq> 0" by (simp_all add: well_formed_def)
  with assms show ?thesis
    by (simp add: alexa_wide_gamut_rgb_inverse_transfer_function_def float_div_def math_pow_def)
qed

theorem inverse_transfer_function_piecewise_witness:
  "conversion_data_get ''SUP 3.x'' ''Normalised Sensor Signal'' 800 =
     Inr (0.003907, 182.199144, - 0.622848, 0.247189, 0.391007, 178.216873, - 0.564981, 0.13131)
   \<and> alexa_wide_gamut_rgb_inverse_transfer_function 0.391007 ''SUP 3.x'' ''Normalised Sensor Signal'' 800 =
     Inr (1.622848 / 182.199144)
   \<and> alexa_wide_gamut_rgb_inverse_transfer_function 0.1 ''SUP 3.x'' ''Normalised Sensor Signal'' 800 =
     Inr (0.664981 / 178.216873)"
  using inverse_transfer_function_piecewise [OF NSS_800_entry, of "0.391007"]
    inverse_transfer_function_piecewise [OF NSS_800_entry, of "0.1"] NSS_800_entry
  by simp

text \<open>
  Claim C10. For every coefficient tuple of the table, the forward function evaluated
  exactly at the crossover \<open>cut\<close> returns \<open>ecutf\<close>.
\<close>

theorem encode_at_cut:
  assumes "conversion_data_get firmware method EI = Inr (cut', a, b, c, d, e, f, ecutf)"
  shows "alexa_wide_gamut_rgb_transfer_function cut' firmware method EI = Inr ecutf"
  using assms by (simp add: alexa_wide_gamut_rgb_transfer_function_def)

theorem encode_at_cut_witness:
  "conversion_data_get ''SUP 3.x'' ''Normalised Sensor Signal'' 800 =
     Inr (0.003907, 182.199144, - 0.622848, 0.247189, 0.391007, 178.216873, - 0.564981, 0.13131)
   \<and> alexa_wide_gamut_rgb_transfer_function 0.003907 ''SUP 3.x'' ''Normalised Sensor Signal'' 800 =
     Inr 0.13131"
  using encode_at_cut [OF NSS_800_entry] NSS_800_entry
  by simp

section \<open>Round trips\<close>

text \<open>
  Claim C3. For every entry of the table, decoding the encoding of \<open>x\<close> is claimed to give
  \<open>x\<close> back for representative values on both segments, 0.001 among them. Below the
  crossover the forward function returns the constant \<open>ecutf\<close>, while the inverse function
  undoes the line \<open>e * x + f\<close>: under "Normalised Sensor Signal" at exposure index 800
  (crossover 0.003907) the values 0.001 and 0.002 are both encoded as 0.13131 and both
  decoded as \<open>696291 / 178216873\<close>, which is more than 0.0029 away from 0.001.
\<close>

theorem round_trip_below_cut:
  "alexa_wide_gamut_rgb_transfer_function 0.001 ''SUP 3.x'' ''Normalised Sensor Signal'' 800
     = Inr 0.13131
   \<and> alexa_wide_gamut_rgb_transfer_function 0.002 ''SUP 3.x'' ''Normalised Sensor Signal'' 800
     = Inr 0.13131
   \<and> decode_encode 0.001 ''SUP 3.x'' ''Normalised Sensor Signal'' 800
     = Inr (696291 / 178216873)
   \<and> decode_encode 0.002 ''SUP 3.x'' ''Normalised Sensor Signal'' 800
     = Inr (696291 / 178216873)
   \<and> (0.0029 :: real) < 696291 / 178216873 - 0.001"
  by (simp add: decode_encode_def alexa_wide_gamut_rgb_transfer_function_def
      alexa_wide_gamut_rgb_inverse_transfer_function_def NSS_800_entry float_div_def)

lemma NSS_line_108_reaches: "NSS_line_108 ei = Some t \<Longrightarrow> reaches_log_segment t"
  by (auto simp add: NSS_line_108_def dict_literal_def reaches_log_segment_def split: if_splits)

lemma LSEF_line_138_reaches: "LSEF_line_138 ei = Some t \<Longrightarrow> reaches_log_segment t"
  by (auto simp add: LSEF_line_138_def dict_literal_def reaches_log_segment_def split: if_splits)

lemma conversion_data_get_reaches:
  assumes "conversion_data_get fw m ei = Inr t"
  shows "reaches_log_segment t"
  using assms
  by (auto simp add: conversion_data_get_def conversion_data_firmware
      firmware_block_line_108_method
      split: if_splits option.splits
      intro: NSS_line_108_reaches LSEF_line_138_reaches)

text \<open>
  On the logarithmic segment the two functions are inverse to each other, exactly: a value
  above the crossover whose encoding lies above \<open>ecutf\<close> is decoded to itself. Every
  entry of the table meets both conditions for every value from 0.18 upwards, so among the
  representative values the round trip holds at 0.18, 1.0 and 4.0 under every
  configuration.
\<close>

lemma round_trip_log_segment:
  assumes get: "conversion_data_get firmware method EI = Inr (cut', a, b, c, d, e, f, ecutf)"
    and v: "cut' < v"
    and y: "ecutf < c * log 10 (a * v + b) + d"
  shows "decode_encode v firmware method EI = Inr v"
proof -
  from conversion_data_get_well_formed [OF get]
  have wf: "0 < a" "0 < a * cut' + b" "c \<noteq> 0"
    by (simp_all add: well_formed_def)
  from wf(1,2) v have pos: "0 < a * v + b"
    by (intro log_argument_positive [of a cut' b v]) simp_all
  from get v pos have enc: "alexa_wide_gamut_rgb_transfer_function v firmware method EI =
      Inr (c * log 10 (a * v + b) + d)"
    by (simp add: alexa_wide_gamut_rgb_transfer_function_def math_log10_def)
  from pos have "10 powr log 10 (a * v + b) = a * v + b" by simp
  with get y wf(1,3)
  have "alexa_wide_gamut_rgb_inverse_transfer_function (c * log 10 (a * v + b) + d)
          firmware method EI = Inr v"
    by (simp add: alexa_wide_gamut_rgb_inverse_transfer_function_def float_div_def math_pow_def)
  with enc show ?thesis by (simp add: decode_encode_def)
qed

lemma round_trip_from_mid_grey:
  assumes get: "conversion_data_get firmware method EI = Inr t" and v: "0.18 \<le> v"
  shows "decode_encode v firmware method EI = Inr v"
proof -
  obtain cut' a b c d e f ecutf where t: "t = (cut', a, b, c, d, e, f, ecutf)"
    by (cases t) auto
  from conversion_data_get_well_formed [OF get] t
  have a: "0 < a" by (simp add: well_formed_def)
  from conversion_data_get_reaches [OF get] t
  have r: "0 < c" "ecutf < d - c" "cut' < 0.18" "1 / 10 \<le> a * 0.18 + b"
    by (simp_all add: reaches_log_segment_def)
  from a v have "a * 0.18 \<le> a * v" by simp
  with r(4) have arg: "1 / 10 \<le> a * v + b" by linarith
  then have "log 10 (1 / 10) \<le> log 10 (a * v + b)" by (intro log_mono) simp_all
  moreover have "log 10 (1 / 10) = - 1" by (simp add: log_divide)
  ultimately have "- 1 \<le> log 10 (a * v + b)" by simp
  with r(1) have "c * (- 1) \<le> c * log 10 (a * v + b)" by (intro mult_left_mono) simp_all
  with r(2) have y: "ecutf < c * log 10 (a * v + b) + d" by linarith
  from r(3) v have "cut' < v" by linarith
  from round_trip_log_segment [OF get [unfolded t] this y] show ?thesis .
qed

section \<open>Failures\<close>

lemma transfer_function_returns:
  assumes "conversion_data_get firmware method EI = Inr t"
  shows "\<not> isl (alexa_wide_gamut_rgb_transfer_function v firmware method EI)"
proof -
  obtain cut' a b c d e f ecutf where t: "t = (cut', a, b, c, d, e, f, ecutf)"
    by (cases t) auto
  from conversion_data_get_well_formed [OF assms] t
  have wf: "0 < a" "0 < a * cut' + b" by (simp_all add: well_formed_def)
  show ?thesis
  proof (cases "v > cut'")
    case True
    with wf have "0 < a * v + b" by (intro log_argument_positive [of a cut' b v]) simp_all
    with True assms t show ?thesis
      by (simp add: alexa_wide_gamut_rgb_transfer_function_def math_log10_def)
  next
    case False
    with assms t show ?thesis
      by (simp add: alexa_wide_gamut_rgb_transfer_function_def)
  qed
qed

lemma inverse_transfer_function_returns:
  assumes "conversion_data_get firmware method EI = Inr t"
  shows "\<not> isl (alexa_wide_gamut_rgb_inverse_transfer_function v firmware method EI)"
proof -
  obtain cut' a b c d e f ecutf where t: "t = (cut', a, b, c, d, e, f, ecutf)"
    by (cases t) auto
  from conversion_data_get_well_formed [OF assms] t
  have "a \<noteq> 0" and "c \<noteq> 0" and "e \<noteq> 0" by (simp_all add: well_formed_def)
  with assms t show ?thesis
    by (simp add: alexa_wide_gamut_rgb_inverse_transfer_function_def float_div_def)
qed

text \<open>
  Claim C4, as stated: a key combination absent from the table makes the call fail with an
  error of the \<^verbatim>\<open>LookupError\<close> kind. It does not: an absent firmware raises
  \<^verbatim>\<open>AttributeError\<close> and an absent exposure index raises \<^verbatim>\<open>TypeError\<close>, in both functions,
  and neither exception is a \<^verbatim>\<open>LookupError\<close>.
\<close>

theorem absent_key_not_LookupError:
  "alexa_wide_gamut_rgb_transfer_function 0.18 ''SUP 2.x'' ''Linear Scene Exposure Factor'' 800
     = Inl AttributeError
   \<and> alexa_wide_gamut_rgb_inverse_transfer_function 0.18 ''SUP 2.x'' ''Linear Scene Exposure Factor'' 800
     = Inl AttributeError
   \<and> \<not> is_LookupError AttributeError
   \<and> alexa_wide_gamut_rgb_transfer_function 0.18 ''SUP 3.x'' ''Linear Scene Exposure Factor'' 801
     = Inl TypeError
   \<and> alexa_wide_gamut_rgb_inverse_transfer_function 0.18 ''SUP 3.x'' ''Linear Scene Exposure Factor'' 801
     = Inl TypeError
   \<and> \<not> is_LookupError TypeError"
  by (simp add: conversion_data_firmware conversion_data_get_def
      firmware_block_line_108_method LSEF_line_138_def dict_literal_def
      alexa_wide_gamut_rgb_transfer_function_def
      alexa_wide_gamut_rgb_inverse_transfer_function_def)

text \<open>
  Claim C4, amended. When the key combination is absent from the table, both functions
  fail with the error of the lookup: \<^verbatim>\<open>AttributeError\<close> when the firmware or the method is
  absent, \<^verbatim>\<open>TypeError\<close> when only the exposure index is; neither is of the \<^verbatim>\<open>LookupError\<close>
  kind. When the key combination is present, neither function fails, in exact arithmetic.
\<close>

theorem unsupported_configuration_error_kinds:
  "(case conversion_data_get firmware method EI of
      Inl err \<Rightarrow>
        alexa_wide_gamut_rgb_transfer_function v firmware method EI = Inl err
        \<and> alexa_wide_gamut_rgb_inverse_transfer_function w firmware method EI = Inl err
        \<and> err = (case ALEXA_LOG_C_CURVE_CONVERSION_DATA firmware of
                   None \<Rightarrow> AttributeError
                 | Some by_method \<Rightarrow>
                     (case by_method method of
                        None \<Rightarrow> AttributeError
                      | Some by_EI \<Rightarrow> TypeError))
        \<and> \<not> is_LookupError err
    | Inr t \<Rightarrow>
        \<not> isl (alexa_wide_gamut_rgb_transfer_function v firmware method EI)
        \<and> \<not> isl (alexa_wide_gamut_rgb_inverse_transfer_function w firmware method EI))"
proof (cases "conversion_data_get firmware method EI")
  case (Inl err)
  then show ?thesis
    by (auto simp add: alexa_wide_gamut_rgb_transfer_function_def
        alexa_wide_gamut_rgb_inverse_transfer_function_def conversion_data_get_def
        split: option.splits)
next
  case (Inr t)
  then show ?thesis
    using transfer_function_returns [OF Inr, of v]
      inverse_transfer_function_returns [OF Inr, of w]
    by simp
qed

section \<open>Matrices of the registered colourspaces\<close>

lemma not_isl_obtains:
  assumes "\<not> isl r"
  obtains y where "r = Inr y"
  using assms by (cases r) simp_all

lemma scaled_row_times_column:
  fixes d :: real
  assumes "d \<noteq> 0" and "p * x + q * y + r * z = n"
  shows "p / d * x + q / d * y + r / d * z = n / d"
proof -
  have "p / d * x + q / d * y + r / d * z = (p * x + q * y + r * z) / d"
    by (simp add: add_divide_distrib)
  with assms(2) show ?thesis by simp
qed

text \<open>
  Whenever the inversion returns, its result times the matrix is the identity.
\<close>

lemma linalg_inv_left:
  assumes "linalg_inv A = Inr B"
  shows "dot B A = identity3"
proof -
  obtain a11 a12 a13 a21 a22 a23 a31 a32 a33 where
    A: "A = ((a11, a12, a13), (a21, a22, a23), (a31, a32, a33))"
    by (cases A) auto
  define d where "d = det3 A"
  from assms have nz: "d \<noteq> 0"
    unfolding d_def by (auto simp add: linalg_inv_def split: prod.splits if_splits)
  have d: "d = a11 * (a22 * a33 - a23 * a32) - a12 * (a21 * a33 - a23 * a31)
                + a13 * (a21 * a32 - a22 * a31)"
    by (simp add: d_def A det3_def)
  from assms nz have B: "B =
          (((a22 * a33 - a23 * a32) / d, (a13 * a32 - a12 * a33) / d, (a12 * a23 - a13 * a22) / d),
           ((a23 * a31 - a21 * a33) / d, (a11 * a33 - a13 * a31) / d, (a13 * a21 - a11 * a23) / d),
           ((a21 * a32 - a22 * a31) / d, (a12 * a31 - a11 * a32) / d, (a11 * a22 - a12 * a21) / d))"
    unfolding d_def A linalg_inv_def by (simp split: if_splits)
  note row = scaled_row_times_column [OF nz]
  have r11: "(a22 * a33 - a23 * a32) / d * a11 + (a13 * a32 - a12 * a33) / d * a21
             + (a12 * a23 - a13 * a22) / d * a31 = d / d"
    by (rule row) (simp add: d algebra_simps)
  have r12: "(a22 * a33 - a23 * a32) / d * a12 + (a13 * a32 - a12 * a33) / d * a22
             + (a12 * a23 - a13 * a22) / d * a32 = 0 / d"
    by (rule row) (simp add: algebra_simps)
  have r13: "(a22 * a33 - a23 * a32) / d * a13 + (a13 * a32 - a12 * a33) / d * a23
             + (a12 * a23 - a13 * a22) / d * a33 = 0 / d"
    by (rule row) (simp add: algebra_simps)
  have r21: "(a23 * a31 - a21 * a33) / d * a11 + (a11 * a33 - a13 * a31) / d * a21
             + (a13 * a21 - a11 * a23) / d * a31 = 0 / d"
    by (rule row) (simp add: algebra_simps)
  have r22: "(a23 * a31 - a21 * a33) / d * a12 + (a11 * a33 - a13 * a31) / d * a22
             + (a13 * a21 - a11 * a23) / d * a32 = d / d"
    by (rule row) (simp add: d algebra_simps)
  have r23: "(a23 * a31 - a21 * a33) / d * a13 + (a11 * a33 - a13 * a31) / d * a23
             + (a13 * a21 - a11 * a23) / d * a33 = 0 / d"
    by (rule row) (simp add: algebra_simps)
  have r31: "(a21 * a32 - a22 * a31) / d * a11 + (a12 * a31 - a11 * a32) / d * a21
             + (a11 * a22 - a12 * a21) / d * a31 = 0 / d"
    by (rule row) (simp add: algebra_simps)
  have r32: "(a21 * a32 - a22 * a31) / d * a12 + (a12 * a31 - a11 * a32) / d * a22
             + (a11 * a22 - a12 * a21) / d * a32 = 0 / d"
    by (rule row) (simp add: algebra_simps)
  have r33: "(a21 * a32 - a22 * a31) / d * a13 + (a12 * a31 - a11 * a32) / d * a23
             + (a11 * a22 - a12 * a21) / d * a33 = d / d"
    by (rule row) (simp add: d algebra_simps)
  show ?thesis
    unfolding B A dot_def identity3_def prod.case prod.inject
      r11 r12 r13 r21 r22 r23 r31 r32 r33
    using nz by simp
qed

lemma linalg_inv_right_vec:
  assumes "linalg_inv A = Inr B"
  shows "dot_vec A (dot_vec B v) = v"
proof -
  obtain a11 a12 a13 a21 a22 a23 a31 a32 a33 where
    A: "A = ((a11, a12, a13), (a21, a22, a23), (a31, a32, a33))"
    by (cases A) auto
  obtain v1 v2 v3 where v: "v = (v1, v2, v3)" by (cases v) auto
  define d where "d = det3 A"
  from assms have nz: "d \<noteq> 0"
    unfolding d_def by (auto simp add: linalg_inv_def split: prod.splits if_splits)
  have d: "d = a11 * (a22 * a33 - a23 * a32) - a12 * (a21 * a33 - a23 * a31)
                + a13 * (a21 * a32 - a22 * a31)"
    by (simp add: d_def A det3_def)
  from assms nz have B: "B =
          (((a22 * a33 - a23 * a32) / d, (a13 * a32 - a12 * a33) / d, (a12 * a23 - a13 * a22) / d),
           ((a23 * a31 - a21 * a33) / d, (a11 * a33 - a13 * a31) / d, (a13 * a21 - a11 * a23) / d),
           ((a21 * a32 - a22 * a31) / d, (a12 * a31 - a11 * a32) / d, (a11 * a22 - a12 * a21) / d))"
    unfolding d_def A linalg_inv_def by (simp split: if_splits)
  have c1: "a11 * ((a22 * a33 - a23 * a32) / d * v1 + (a13 * a32 - a12 * a33) / d * v2
                    + (a12 * a23 - a13 * a22) / d * v3)
          + a12 * ((a23 * a31 - a21 * a33) / d * v1 + (a11 * a33 - a13 * a31) / d * v2
                    + (a13 * a21 - a11 * a23) / d * v3)
          + a13 * ((a21 * a32 - a22 * a31) / d * v1 + (a12 * a31 - a11 * a32) / d * v2
                    + (a11 * a22 - a12 * a21) / d * v3) = (d * v1) / d"
    by (simp add: d algebra_simps add_divide_distrib diff_divide_distrib)
  have c2: "a21 * ((a22 * a33 - a23 * a32) / d * v1 + (a13 * a32 - a12 * a33) / d * v2
                    + (a12 * a23 - a13 * a22) / d * v3)
          + a22 * ((a23 * a31 - a21 * a33) / d * v1 + (a11 * a33 - a13 * a31) / d * v2
                    + (a13 * a21 - a11 * a23) / d * v3)
          + a23 * ((a21 * a32 - a22 * a31) / d * v1 + (a12 * a31 - a11 * a32) / d * v2
                    + (a11 * a22 - a12 * a21) / d * v3) = (d * v2) / d"
    by (simp add: d algebra_simps add_divide_distrib diff_divide_distrib)
  have c3: "a31 * ((a22 * a33 - a23 * a32) / d * v1 + (a13 * a32 - a12 * a33) / d * v2
                    + (a12 * a23 - a13 * a22) / d * v3)
          + a32 * ((a23 * a31 - a21 * a33) / d * v1 + (a11 * a33 - a13 * a31) / d * v2
                    + (a13 * a21 - a11 * a23) / d * v3)
          + a33 * ((a21 * a32 - a22 * a31) / d * v1 + (a12 * a31 - a11 * a32) / d * v2
                    + (a11 * a22 - a12 * a21) / d * v3) = (d * v3) / d"
    by (simp add: d algebra_simps add_divide_distrib diff_divide_distrib)
  show ?thesis
    unfolding A B v dot_vec_def prod.case c1 c2 c3 using nz by simp
qed

text \<open>
  The derivation does what the specification asks of it: whenever it returns, the matrix
  maps RGB white \<open>(1, 1, 1)\<close> to the whitepoint at unit luminance.
\<close>

lemma dot_diagflat_ones:
  "dot_vec (dot A (diagflat s)) (1, 1, 1) = dot_vec A s"
  by (cases A; cases s) (auto simp add: dot_def dot_vec_def diagflat_def)

lemma normalised_primary_matrix_white:
  assumes "normalised_primary_matrix P w = Inr M"
  shows "xy_to_XYZ w = Inr (dot_vec M (1, 1, 1))"
proof -
  from assms obtain W P_inv where
    W: "xy_to_XYZ w = Inr W" and
    inv: "linalg_inv (primaries_to_XYZ P) = Inr P_inv" and
    M: "M = dot (primaries_to_XYZ P) (diagflat (dot_vec P_inv W))"
    by (auto simp add: normalised_primary_matrix_def and_then_def split: sum.splits)
  have "dot_vec M (1, 1, 1) = dot_vec (primaries_to_XYZ P) (dot_vec P_inv W)"
    unfolding M by (rule dot_diagflat_ones)
  also have "\<dots> = W" by (rule linalg_inv_right_vec [OF inv])
  finally show ?thesis using W by simp
qed

lemma close_to_refl: "0 < eps \<Longrightarrow> close_to eps A A"
  by (cases A) (auto simp add: close_to_def)

subsection \<open>ALEXA Wide Gamut RGB\<close>

lemma alexa_primaries:
  "ALEXA_WIDE_GAMUT_RGB_PRIMARIES =
     Inr ((0.6840, 0.3130), (0.2210, 0.8480), (0.0861, - 0.1020))"
  by (simp add: ALEXA_WIDE_GAMUT_RGB_PRIMARIES_def)

lemma alexa_to_xyz:
  "ALEXA_WIDE_GAMUT_RGB_TO_XYZ_MATRIX =
     Inr ((0.638008, 0.214704, 0.097744),
          (0.291954, 0.823841, - 0.115795),
          (0.002798, - 0.067034, 1.153294))"
  by (simp add: ALEXA_WIDE_GAMUT_RGB_TO_XYZ_MATRIX_def)

lemma xyz_to_alexa_returns: "\<not> isl XYZ_TO_ALEXA_WIDE_GAMUT_RGB_MATRIX"
  by (simp add: XYZ_TO_ALEXA_WIDE_GAMUT_RGB_MATRIX_def alexa_to_xyz and_then_def
      linalg_inv_def det3_def)

lemma alexa_colourspace:
  obtains M_inv where
    "linalg_inv ((0.638008, 0.214704, 0.097744),
                 (0.291954, 0.823841, - 0.115795),
                 (0.002798, - 0.067034, 1.153294)) = Inr M_inv"
    and "ALEXA_WIDE_GAMUT_RGB_COLOURSPACE D65 =
       Inr (Colourspace ''ALEXA Wide Gamut RGB''
              ((0.6840, 0.3130), (0.2210, 0.8480), (0.0861, - 0.1020))
              D65
              ((0.638008, 0.214704, 0.097744),
               (0.291954, 0.823841, - 0.115795),
               (0.002798, - 0.067034, 1.153294))
              M_inv
              ALEXA_WIDE_GAMUT_RGB_TRANSFER_FUNCTION
              ALEXA_WIDE_GAMUT_RGB_INVERSE_TRANSFER_FUNCTION)"
proof -
  from xyz_to_alexa_returns obtain N where N: "XYZ_TO_ALEXA_WIDE_GAMUT_RGB_MATRIX = Inr N"
    by (rule not_isl_obtains)
  then have "linalg_inv ((0.638008, 0.214704, 0.097744),
                 (0.291954, 0.823841, - 0.115795),
                 (0.002798, - 0.067034, 1.153294)) = Inr N"
    unfolding XYZ_TO_ALEXA_WIDE_GAMUT_RGB_MATRIX_def alexa_to_xyz and_then_def sum.case .
  moreover have "ALEXA_WIDE_GAMUT_RGB_COLOURSPACE D65 =
       Inr (Colourspace ''ALEXA Wide Gamut RGB''
              ((0.6840, 0.3130), (0.2210, 0.8480), (0.0861, - 0.1020))
              D65
              ((0.638008, 0.214704, 0.097744),
               (0.291954, 0.823841, - 0.115795),
               (0.002798, - 0.067034, 1.153294))
              N
              ALEXA_WIDE_GAMUT_RGB_TRANSFER_FUNCTION
              ALEXA_WIDE_GAMUT_RGB_INVERSE_TRANSFER_FUNCTION)"
    unfolding ALEXA_WIDE_GAMUT_RGB_COLOURSPACE_def N alexa_primaries alexa_to_xyz
      and_then_def sum.case ALEXA_WIDE_GAMUT_RGB_WHITEPOINT_def ..
  ultimately show thesis by (rule that)
qed

subsection \<open>Blackmagic\<close>

text \<open>
  The shape shared by the six Blackmagic constructions: whenever one returns a
  colourspace, its forward matrix is the result of the derivation and its backward matrix
  the result of the inversion.
\<close>

lemma derived_colourspace:
  assumes "and_then T (\<lambda>M. and_then (and_then T linalg_inv) (\<lambda>M_inv.
             Inr (RGB_Colourspace n P w w_name M M_inv enc dec))) = Inr cs"
  shows "T = Inr (matrix_RGB_to_XYZ cs)"
    and "linalg_inv (matrix_RGB_to_XYZ cs) = Inr (matrix_XYZ_to_RGB cs)"
    and "primaries cs = P" and "whitepoint cs = w" and "name cs = n"
  using assms
  by (auto simp add: and_then_def RGB_Colourspace_def split: sum.splits)

lemma bmd_film_v1:
  assumes "RGB_COLOURSPACE_BMD_FILM_V1 = Inr cs"
  shows "normalised_primary_matrix (primaries cs) (whitepoint cs) = Inr (matrix_RGB_to_XYZ cs)"
    and "linalg_inv (matrix_RGB_to_XYZ cs) = Inr (matrix_XYZ_to_RGB cs)"
proof -
  note cs = derived_colourspace
    [OF assms [unfolded RGB_COLOURSPACE_BMD_FILM_V1_def XYZ_TO_BMD_FILM_V1_MATRIX_def]]
  from cs(1) show "normalised_primary_matrix (primaries cs) (whitepoint cs) =
      Inr (matrix_RGB_to_XYZ cs)"
    unfolding cs(3) cs(4) BMD_FILM_V1_TO_XYZ_MATRIX_def .
  from cs(2) show "linalg_inv (matrix_RGB_to_XYZ cs) = Inr (matrix_XYZ_to_RGB cs)" .
qed

lemma bmd_4k_film_v1:
  assumes "RGB_COLOURSPACE_BMD_4K_FILM_V1 = Inr cs"
  shows "normalised_primary_matrix (primaries cs) (whitepoint cs) = Inr (matrix_RGB_to_XYZ cs)"
    and "linalg_inv (matrix_RGB_to_XYZ cs) = Inr (matrix_XYZ_to_RGB cs)"
proof -
  note cs = derived_colourspace
    [OF assms [unfolded RGB_COLOURSPACE_BMD_4K_FILM_V1_def XYZ_TO_BMD_4K_FILM_V1_MATRIX_def]]
  from cs(1) show "normalised_primary_matrix (primaries cs) (whitepoint cs) =
      Inr (matrix_RGB_to_XYZ cs)"
    unfolding cs(3) cs(4) BMD_4K_FILM_V1_TO_XYZ_MATRIX_def .
  from cs(2) show "linalg_inv (matrix_RGB_to_XYZ cs) = Inr (matrix_XYZ_to_RGB cs)" .
qed

lemma bmd_4k_film_v3:
  assumes "RGB_COLOURSPACE_BMD_4K_FILM_V3 = Inr cs"
  shows "normalised_primary_matrix (primaries cs) (whitepoint cs) = Inr (matrix_RGB_to_XYZ cs)"
    and "linalg_inv (matrix_RGB_to_XYZ cs) = Inr (matrix_XYZ_to_RGB cs)"
proof -
  note cs = derived_colourspace
    [OF assms [unfolded RGB_COLOURSPACE_BMD_4K_FILM_V3_def XYZ_TO_BMD_4K_FILM_V3_MATRIX_def]]
  from cs(1) show "normalised_primary_matrix (primaries cs) (whitepoint cs) =
      Inr (matrix_RGB_to_XYZ cs)"
    unfolding cs(3) cs(4) BMD_4K_FILM_V3_TO_XYZ_MATRIX_def .
  from cs(2) show "linalg_inv (matrix_RGB_to_XYZ cs) = Inr (matrix_XYZ_to_RGB cs)" .
qed

lemma bmd_46k_film_v1:
  assumes "RGB_COLOURSPACE_BMD_46K_FILM_V1 D65 = Inr cs"
  shows "normalised_primary_matrix (primaries cs) (whitepoint cs) = Inr (matrix_RGB_to_XYZ cs)"
    and "linalg_inv (matrix_RGB_to_XYZ cs) = Inr (matrix_XYZ_to_RGB cs)"
proof -
  note cs = derived_colourspace
    [OF assms [unfolded RGB_COLOURSPACE_BMD_46K_FILM_V1_def XYZ_TO_BMD_46K_FILM_V1_MATRIX_def]]
  from cs(1) show "normalised_primary_matrix (primaries cs) (whitepoint cs) =
      Inr (matrix_RGB_to_XYZ cs)"
    unfolding cs(3) cs(4) BMD_46K_FILM_V1_TO_XYZ_MATRIX_def .
  from cs(2) show "linalg_inv (matrix_RGB_to_XYZ cs) = Inr (matrix_XYZ_to_RGB cs)" .
qed

lemma bmd_46k_film_v3:
  assumes "RGB_COLOURSPACE_BMD_46K_FILM_V3 D65 = Inr cs"
  shows "normalised_primary_matrix (primaries cs) (whitepoint cs) = Inr (matrix_RGB_to_XYZ cs)"
    and "linalg_inv (matrix_RGB_to_XYZ cs) = Inr (matrix_XYZ_to_RGB cs)"
proof -
  note cs = derived_colourspace
    [OF assms [unfolded RGB_COLOURSPACE_BMD_46K_FILM_V3_def XYZ_TO_BMD_46K_FILM_V3_MATRIX_def]]
  from cs(1) show "normalised_primary_matrix (primaries cs) (whitepoint cs) =
      Inr (matrix_RGB_to_XYZ cs)"
    unfolding cs(3) cs(4) BMD_46K_FILM_V3_TO_XYZ_MATRIX_def .
  from cs(2) show "linalg_inv (matrix_RGB_to_XYZ cs) = Inr (matrix_XYZ_to_RGB cs)" .
qed

lemma bmd_wide_gamut_v4:
  assumes "RGB_COLOURSPACE_BMD_WIDE_GAMUT_V4 D65 = Inr cs"
  shows "normalised_primary_matrix (primaries cs) (whitepoint cs) = Inr (matrix_RGB_to_XYZ cs)"
    and "linalg_inv (matrix_RGB_to_XYZ cs) = Inr (matrix_XYZ_to_RGB cs)"
proof -
  note cs = derived_colourspace
    [OF assms [unfolded RGB_COLOURSPACE_BMD_WIDE_GAMUT_V4_def XYZ_TO_BMD_WIDE_GAMUT_V4_MATRIX_def]]
  from cs(1) show "normalised_primary_matrix (primaries cs) (whitepoint cs) =
      Inr (matrix_RGB_to_XYZ cs)"
    unfolding cs(3) cs(4) BMD_WIDE_GAMUT_V4_TO_XYZ_MATRIX_def .
  from cs(2) show "linalg_inv (matrix_RGB_to_XYZ cs) = Inr (matrix_XYZ_to_RGB cs)" .
qed

subsection \<open>The registry\<close>

lemma get_cases:
  assumes "get D65 n = Inr cs"
  shows "n = ''ALEXA Wide Gamut RGB'' \<and> ALEXA_WIDE_GAMUT_RGB_COLOURSPACE D65 = Inr cs
       \<or> n = ''BMD Film V1'' \<and> RGB_COLOURSPACE_BMD_FILM_V1 = Inr cs
       \<or> n = ''BMD 4K Film V1'' \<and> RGB_COLOURSPACE_BMD_4K_FILM_V1 = Inr cs
       \<or> n = ''BMD 4K Film V3'' \<and> RGB_COLOURSPACE_BMD_4K_FILM_V3 = Inr cs
       \<or> n = ''BMD 46K Film V1'' \<and> RGB_COLOURSPACE_BMD_46K_FILM_V1 D65 = Inr cs
       \<or> n = ''BMD 46K Film V3'' \<and> RGB_COLOURSPACE_BMD_46K_FILM_V3 D65 = Inr cs
       \<or> n = ''BMD Wide Gamut V4'' \<and> RGB_COLOURSPACE_BMD_WIDE_GAMUT_V4 D65 = Inr cs"
  using assms by (simp add: get_def RGB_COLOURSPACES_def split: if_splits)

lemma get_alexa:
  "get D65 ''ALEXA Wide Gamut RGB'' = ALEXA_WIDE_GAMUT_RGB_COLOURSPACE D65"
  by (simp add: get_def RGB_COLOURSPACES_def)

lemma registered_inverse:
  assumes "get D65 n = Inr cs"
  shows "linalg_inv (matrix_RGB_to_XYZ cs) = Inr (matrix_XYZ_to_RGB cs)"
proof -
  have alexa: "linalg_inv (matrix_RGB_to_XYZ cs) = Inr (matrix_XYZ_to_RGB cs)"
    if "ALEXA_WIDE_GAMUT_RGB_COLOURSPACE D65 = Inr cs"
  proof -
    obtain M_inv where
      inv: "linalg_inv ((0.638008, 0.214704, 0.097744),
                 (0.291954, 0.823841, - 0.115795),
                 (0.002798, - 0.067034, 1.153294)) = Inr M_inv"
      and eq: "ALEXA_WIDE_GAMUT_RGB_COLOURSPACE D65 =
       Inr (Colourspace ''ALEXA Wide Gamut RGB''
              ((0.6840, 0.3130), (0.2210, 0.8480), (0.0861, - 0.1020))
              D65
              ((0.638008, 0.214704, 0.097744),
               (0.291954, 0.823841, - 0.115795),
               (0.002798, - 0.067034, 1.153294))
              M_inv
              ALEXA_WIDE_GAMUT_RGB_TRANSFER_FUNCTION
              ALEXA_WIDE_GAMUT_RGB_INVERSE_TRANSFER_FUNCTION)"
      by (rule alexa_colourspace)
    from that eq have cs: "cs = Colourspace ''ALEXA Wide Gamut RGB''
              ((0.6840, 0.3130), (0.2210, 0.8480), (0.0861, - 0.1020))
              D65
              ((0.638008, 0.214704, 0.097744),
               (0.291954, 0.823841, - 0.115795),
               (0.002798, - 0.067034, 1.153294))
              M_inv
              ALEXA_WIDE_GAMUT_RGB_TRANSFER_FUNCTION
              ALEXA_WIDE_GAMUT_RGB_INVERSE_TRANSFER_FUNCTION"
      by simp
    show ?thesis
      unfolding cs Colourspace_def colourspace.simps using inv .
  qed
  from get_cases [OF assms] show ?thesis
    using alexa bmd_film_v1(2) bmd_4k_film_v1(2) bmd_4k_film_v3(2)
      bmd_46k_film_v1(2) bmd_46k_film_v3(2) bmd_wide_gamut_v4(2)
    by blast
qed

lemmas npm_unfold =
  normalised_primary_matrix_def and_then_def xy_to_XYZ_def primaries_to_XYZ_def
  linalg_inv_def det3_def dot_def dot_vec_def diagflat_def

lemma registered_built_at_standard_D65:
  "\<not> isl (ALEXA_WIDE_GAMUT_RGB_COLOURSPACE (0.3127, 0.3290))"
  "\<not> isl RGB_COLOURSPACE_BMD_FILM_V1"
  "\<not> isl RGB_COLOURSPACE_BMD_4K_FILM_V1"
  "\<not> isl RGB_COLOURSPACE_BMD_4K_FILM_V3"
  "\<not> isl (RGB_COLOURSPACE_BMD_46K_FILM_V1 (0.3127, 0.3290))"
  "\<not> isl (RGB_COLOURSPACE_BMD_46K_FILM_V3 (0.3127, 0.3290))"
  "\<not> isl (RGB_COLOURSPACE_BMD_WIDE_GAMUT_V4 (0.3127, 0.3290))"
proof -
  show "\<not> isl (ALEXA_WIDE_GAMUT_RGB_COLOURSPACE (0.3127, 0.3290))"
    by (rule alexa_colourspace [of "(0.3127, 0.3290)"]) simp
  show "\<not> isl RGB_COLOURSPACE_BMD_FILM_V1"
    by (simp add: RGB_COLOURSPACE_BMD_FILM_V1_def XYZ_TO_BMD_FILM_V1_MATRIX_def
        BMD_FILM_V1_TO_XYZ_MATRIX_def BMD_FILM_V1_PRIMARIES_def BMD_FILM_V1_WHITEPOINT_def
        npm_unfold)
  show "\<not> isl RGB_COLOURSPACE_BMD_4K_FILM_V1"
    by (simp add: RGB_COLOURSPACE_BMD_4K_FILM_V1_def XYZ_TO_BMD_4K_FILM_V1_MATRIX_def
        BMD_4K_FILM_V1_TO_XYZ_MATRIX_def BMD_4K_FILM_V1_PRIMARIES_def
        BMD_4K_FILM_V1_WHITEPOINT_def npm_unfold)
  show "\<not> isl RGB_COLOURSPACE_BMD_4K_FILM_V3"
    by (simp add: RGB_COLOURSPACE_BMD_4K_FILM_V3_def XYZ_TO_BMD_4K_FILM_V3_MATRIX_def
        BMD_4K_FILM_V3_TO_XYZ_MATRIX_def BMD_4K_FILM_V3_PRIMARIES_def
        BMD_4K_FILM_V3_WHITEPOINT_def npm_unfold)
  show "\<not> isl (RGB_COLOURSPACE_BMD_46K_FILM_V1 (0.3127, 0.3290))"
    by (simp add: RGB_COLOURSPACE_BMD_46K_FILM_V1_def XYZ_TO_BMD_46K_FILM_V1_MATRIX_def
        BMD_46K_FILM_V1_TO_XYZ_MATRIX_def BMD_46K_FILM_V1_PRIMARIES_def
        BMD_46K_FILM_V1_WHITEPOINT_def npm_unfold)
  show "\<not> isl (RGB_COLOURSPACE_BMD_46K_FILM_V3 (0.3127, 0.3290))"
    by (simp add: RGB_COLOURSPACE_BMD_46K_FILM_V3_def XYZ_TO_BMD_46K_FILM_V3_MATRIX_def
        BMD_46K_FILM_V3_TO_XYZ_MATRIX_def BMD_46K_FILM_V3_PRIMARIES_def
        BMD_46K_FILM_V3_WHITEPOINT_def npm_unfold)
  show "\<not> isl (RGB_COLOURSPACE_BMD_WIDE_GAMUT_V4 (0.3127, 0.3290))"
    by (simp add: RGB_COLOURSPACE_BMD_WIDE_GAMUT_V4_def XYZ_TO_BMD_WIDE_GAMUT_V4_MATRIX_def
        BMD_WIDE_GAMUT_V4_TO_XYZ_MATRIX_def BMD_WIDE_GAMUT_V4_PRIMARIES_def
        BMD_WIDE_GAMUT_V4_WHITEPOINT_def npm_unfold)
qed

subsection \<open>The ALEXA matrix and the derivation\<close>

lemma normalised_primary_matrix_columns:
  assumes "normalised_primary_matrix ((xr, yr), (xg, yg), (xb, yb)) w = Inr M"
  obtains s1 s2 s3 where
    "M = ((xr * s1, xg * s2, xb * s3),
          (yr * s1, yg * s2, yb * s3),
          ((1 - xr - yr) * s1, (1 - xg - yg) * s2, (1 - xb - yb) * s3))"
proof -
  from assms obtain W P_inv where
    M: "M = dot (primaries_to_XYZ ((xr, yr), (xg, yg), (xb, yb))) (diagflat (dot_vec P_inv W))"
    by (auto simp add: normalised_primary_matrix_def and_then_def split: sum.splits)
  obtain s1 s2 s3 where s: "dot_vec P_inv W = (s1, s2, s3)"
    by (cases "dot_vec P_inv W") auto
  show thesis
    by (rule that [of s1 s2 s3]) (simp add: M s dot_def diagflat_def primaries_to_XYZ_def)
qed

lemma alexa_never_derived:
  "normalised_primary_matrix ((0.6840, 0.3130), (0.2210, 0.8480), (0.0861, - 0.1020)) w \<noteq>
     Inr ((0.638008, 0.214704, 0.097744),
          (0.291954, 0.823841, - 0.115795),
          (0.002798, - 0.067034, 1.153294))"
proof
  assume "normalised_primary_matrix ((0.6840, 0.3130), (0.2210, 0.8480), (0.0861, - 0.1020)) w =
     Inr ((0.638008, 0.214704, 0.097744),
          (0.291954, 0.823841, - 0.115795),
          (0.002798, - 0.067034, 1.153294))"
  then obtain s1 s2 s3 :: real where
    "((0.638008, 0.214704, 0.097744),
      (0.291954, 0.823841, - 0.115795),
      (0.002798, - 0.067034, 1.153294)) =
     ((0.6840 * s1, 0.2210 * s2, 0.0861 * s3),
      (0.3130 * s1, 0.8480 * s2, - 0.1020 * s3),
      ((1 - 0.6840 - 0.3130) * s1, (1 - 0.2210 - 0.8480) * s2, (1 - 0.0861 - - 0.1020) * s3))"
    by (rule normalised_primary_matrix_columns)
  then have "0.638008 = 0.6840 * s1" and "0.291954 = 0.3130 * s1"
    by simp_all
  then show False by simp
qed

lemma alexa_derivation_at_standard_D65:
  "\<not> isl (normalised_primary_matrix
            ((0.6840, 0.3130), (0.2210, 0.8480), (0.0861, - 0.1020)) (0.3127, 0.3290))"
  "close_to (5 / 10 ^ 7)
     (projr (normalised_primary_matrix
            ((0.6840, 0.3130), (0.2210, 0.8480), (0.0861, - 0.1020)) (0.3127, 0.3290)))
     ((0.638008, 0.214704, 0.097744),
      (0.291954, 0.823841, - 0.115795),
      (0.002798, - 0.067034, 1.153294))"
  "0.002798 + 2.7 / 10 ^ 7 <
     fst (snd (snd (projr (normalised_primary_matrix
            ((0.6840, 0.3130), (0.2210, 0.8480), (0.0861, - 0.1020)) (0.3127, 0.3290)))))"
  by (simp_all add: npm_unfold close_to_def)

lemma registered_derivation:
  assumes "get D65 n = Inr cs" and "n \<noteq> ''ALEXA Wide Gamut RGB''"
  shows "normalised_primary_matrix (primaries cs) (whitepoint cs) = Inr (matrix_RGB_to_XYZ cs)"
  using get_cases [OF assms(1)] assms(2)
    bmd_film_v1(1) bmd_4k_film_v1(1) bmd_4k_film_v3(1)
    bmd_46k_film_v1(1) bmd_46k_film_v3(1) bmd_wide_gamut_v4(1)
  by blast

lemma registered_alexa:
  assumes "get D65 ''ALEXA Wide Gamut RGB'' = Inr cs"
  shows "primaries cs = ((0.6840, 0.3130), (0.2210, 0.8480), (0.0861, - 0.1020))"
    and "whitepoint cs = D65"
    and "matrix_RGB_to_XYZ cs =
           ((0.638008, 0.214704, 0.097744),
            (0.291954, 0.823841, - 0.115795),
            (0.002798, - 0.067034, 1.153294))"
proof -
  obtain M_inv where "ALEXA_WIDE_GAMUT_RGB_COLOURSPACE D65 =
       Inr (Colourspace ''ALEXA Wide Gamut RGB''
              ((0.6840, 0.3130), (0.2210, 0.8480), (0.0861, - 0.1020))
              D65
              ((0.638008, 0.214704, 0.097744),
               (0.291954, 0.823841, - 0.115795),
               (0.002798, - 0.067034, 1.153294))
              M_inv
              ALEXA_WIDE_GAMUT_RGB_TRANSFER_FUNCTION
              ALEXA_WIDE_GAMUT_RGB_INVERSE_TRANSFER_FUNCTION)"
    by (rule alexa_colourspace)
  with assms have cs: "cs = Colourspace ''ALEXA Wide Gamut RGB''
              ((0.6840, 0.3130), (0.2210, 0.8480), (0.0861, - 0.1020))
              D65
              ((0.638008, 0.214704, 0.097744),
               (0.291954, 0.823841, - 0.115795),
               (0.002798, - 0.067034, 1.153294))
              M_inv
              ALEXA_WIDE_GAMUT_RGB_TRANSFER_FUNCTION
              ALEXA_WIDE_GAMUT_RGB_INVERSE_TRANSFER_FUNCTION"
    by (simp add: get_alexa)
  show "primaries cs = ((0.6840, 0.3130), (0.2210, 0.8480), (0.0861, - 0.1020))"
    unfolding cs Colourspace_def colourspace.simps ..
  show "whitepoint cs = D65"
    unfolding cs Colourspace_def colourspace.simps ..
  show "matrix_RGB_to_XYZ cs =
           ((0.638008, 0.214704, 0.097744),
            (0.291954, 0.823841, - 0.115795),
            (0.002798, - 0.067034, 1.153294))"
    unfolding cs Colourspace_def colourspace.simps ..
qed

lemma get_alexa_returns: "get D65 ''ALEXA Wide Gamut RGB'' =
    Inr (projr (get D65 ''ALEXA Wide Gamut RGB''))"
proof -
  have "\<not> isl (ALEXA_WIDE_GAMUT_RGB_COLOURSPACE D65)"
    by (rule alexa_colourspace [of D65]) simp
  then show ?thesis by (simp add: get_alexa)
qed

section \<open>Claims about the registered colourspaces\<close>

text \<open>
  Claim C7. For every registered colourspace (ALEXA Wide Gamut RGB and each of the six
  Blackmagic colourspaces) the XYZ to RGB matrix is the inverse of the RGB to XYZ matrix,
  so that their product is the identity within tolerance \<open>10\<^sup>-\<^sup>1\<^sup>0\<close>. In exact arithmetic the
  product is the identity itself. The hypothesis says that the colourspace was constructed;
  all seven are for the CIE chromaticity of D65, \<open>(0.3127, 0.3290)\<close>.
\<close>

theorem registered_matrices_mutually_inverse:
  assumes "get D65 n = Inr cs"
  shows "linalg_inv (matrix_RGB_to_XYZ cs) = Inr (matrix_XYZ_to_RGB cs)
       \<and> dot (matrix_XYZ_to_RGB cs) (matrix_RGB_to_XYZ cs) = identity3
       \<and> close_to (1 / 10 ^ 10) (dot (matrix_XYZ_to_RGB cs) (matrix_RGB_to_XYZ cs)) identity3"
proof -
  from registered_inverse [OF assms]
  have inv: "linalg_inv (matrix_RGB_to_XYZ cs) = Inr (matrix_XYZ_to_RGB cs)" .
  from linalg_inv_left [OF inv]
  have prod: "dot (matrix_XYZ_to_RGB cs) (matrix_RGB_to_XYZ cs) = identity3" .
  have "close_to (1 / 10 ^ 10) identity3 identity3"
    by (rule close_to_refl) simp
  with inv prod show ?thesis by simp
qed

theorem registered_matrices_mutually_inverse_witness:
  "\<not> isl (get (0.3127, 0.3290) ''BMD Wide Gamut V4'')
   \<and> dot (matrix_XYZ_to_RGB (projr (get (0.3127, 0.3290) ''BMD Wide Gamut V4'')))
         (matrix_RGB_to_XYZ (projr (get (0.3127, 0.3290) ''BMD Wide Gamut V4''))) = identity3
   \<and> \<not> isl (get (0.3127, 0.3290) ''ALEXA Wide Gamut RGB'')
   \<and> dot (matrix_XYZ_to_RGB (projr (get (0.3127, 0.3290) ''ALEXA Wide Gamut RGB'')))
         (matrix_RGB_to_XYZ (projr (get (0.3127, 0.3290) ''ALEXA Wide Gamut RGB''))) = identity3"
proof -
  have b: "\<not> isl (get (0.3127, 0.3290) ''BMD Wide Gamut V4'')"
    using registered_built_at_standard_D65(7) by (simp add: get_def RGB_COLOURSPACES_def)
  have a: "\<not> isl (get (0.3127, 0.3290) ''ALEXA Wide Gamut RGB'')"
    using registered_built_at_standard_D65(1) by (simp add: get_def RGB_COLOURSPACES_def)
  from b have b': "get (0.3127, 0.3290) ''BMD Wide Gamut V4'' =
      Inr (projr (get (0.3127, 0.3290) ''BMD Wide Gamut V4''))" by simp
  from a have a': "get (0.3127, 0.3290) ''ALEXA Wide Gamut RGB'' =
      Inr (projr (get (0.3127, 0.3290) ''ALEXA Wide Gamut RGB''))" by simp
  from registered_matrices_mutually_inverse [OF b']
    registered_matrices_mutually_inverse [OF a'] a b
  show ?thesis by blast
qed

text \<open>
  Claim C9. Looking up the colourspace named "ALEXA Wide Gamut RGB" returns a colourspace
  whose primaries have the first row (the red primary) \<open>(0.6840, 0.3130)\<close>, whatever the
  illuminant table holds for D65.
\<close>

theorem get_alexa_red_primary:
  "\<not> isl (get D65 ''ALEXA Wide Gamut RGB'')
   \<and> name (projr (get D65 ''ALEXA Wide Gamut RGB'')) = ''ALEXA Wide Gamut RGB''
   \<and> fst (primaries (projr (get D65 ''ALEXA Wide Gamut RGB''))) = (0.6840, 0.3130)"
  unfolding get_alexa
  by (rule alexa_colourspace [of D65]) (simp add: Colourspace_def)

text \<open>
  Claim C8, as stated: the RGB to XYZ matrix of every registered colourspace is derived
  from its primaries and whitepoint by the normalised-primary-matrix method, the ALEXA one
  in particular, and reproduces the published matrix to five significant digits. The ALEXA
  matrix is a literal of the source: with D65 at \<open>(0.3127, 0.3290)\<close> the derivation from the
  ALEXA primaries returns a different matrix, whose bottom left entry exceeds the literal's
  0.002798 by more than \<open>2.7 \<times> 10\<^sup>-\<^sup>7\<close>, nearly three units of the fifth significant digit.
\<close>

theorem alexa_matrix_is_not_the_derivation:
  "\<not> isl (get (0.3127, 0.3290) ''ALEXA Wide Gamut RGB'')
   \<and> normalised_primary_matrix
        (primaries (projr (get (0.3127, 0.3290) ''ALEXA Wide Gamut RGB'')))
        (whitepoint (projr (get (0.3127, 0.3290) ''ALEXA Wide Gamut RGB'')))
      \<noteq> Inr (matrix_RGB_to_XYZ (projr (get (0.3127, 0.3290) ''ALEXA Wide Gamut RGB'')))
   \<and> fst (snd (snd (matrix_RGB_to_XYZ (projr (get (0.3127, 0.3290) ''ALEXA Wide Gamut RGB'')))))
      = 0.002798
   \<and> 0.002798 + 2.7 / 10 ^ 7 <
      fst (snd (snd (projr (normalised_primary_matrix
        (primaries (projr (get (0.3127, 0.3290) ''ALEXA Wide Gamut RGB'')))
        (whitepoint (projr (get (0.3127, 0.3290) ''ALEXA Wide Gamut RGB'')))))))"
proof -
  note cs = registered_alexa [OF get_alexa_returns [of "(0.3127, 0.3290)"]]
  have "\<not> isl (get (0.3127, 0.3290) ''ALEXA Wide Gamut RGB'')"
    by (subst get_alexa_returns) simp
  then show ?thesis
    unfolding cs
    using alexa_never_derived [of "(0.3127, 0.3290)"] alexa_derivation_at_standard_D65(3)
    by simp
qed

text \<open>
  Claim C8, amended. The RGB to XYZ matrix of each of the six Blackmagic colourspaces is
  the normalised-primary-matrix derivation from its primaries and whitepoint. The ALEXA
  Wide Gamut RGB matrix is the literal matrix of the source, which is the derivation from
  the ALEXA primaries for no whitepoint \<open>w\<close>; for D65 at \<open>(0.3127, 0.3290)\<close> the derivation
  agrees with it within \<open>5 \<times> 10\<^sup>-\<^sup>7\<close> in every entry, that is to the six decimal places the
  literal is written with.
\<close>

theorem rgb_to_xyz_matrix_derivation:
  assumes "get D65 n = Inr cs"
  shows "if n = ''ALEXA Wide Gamut RGB''
         then matrix_RGB_to_XYZ cs =
                ((0.638008, 0.214704, 0.097744),
                 (0.291954, 0.823841, - 0.115795),
                 (0.002798, - 0.067034, 1.153294))
              \<and> normalised_primary_matrix (primaries cs) w \<noteq> Inr (matrix_RGB_to_XYZ cs)
              \<and> \<not> isl (normalised_primary_matrix (primaries cs) (0.3127, 0.3290))
              \<and> close_to (5 / 10 ^ 7)
                  (projr (normalised_primary_matrix (primaries cs) (0.3127, 0.3290)))
                  (matrix_RGB_to_XYZ cs)
         else normalised_primary_matrix (primaries cs) (whitepoint cs) =
                Inr (matrix_RGB_to_XYZ cs)"
proof (cases "n = ''ALEXA Wide Gamut RGB''")
  case True
  with assms have "get D65 ''ALEXA Wide Gamut RGB'' = Inr cs" by simp
  note cs = registered_alexa [OF this]
  from True show ?thesis
    unfolding cs
    using alexa_never_derived [of w] alexa_derivation_at_standard_D65(1,2)
    by simp
next
  case False
  with registered_derivation [OF assms] show ?thesis by simp
qed

theorem rgb_to_xyz_matrix_derivation_witness:
  "\<not> isl (get (0.3127, 0.3290) ''BMD Film V1'')
   \<and> normalised_primary_matrix
        (primaries (projr (get (0.3127, 0.3290) ''BMD Film V1'')))
        (whitepoint (projr (get (0.3127, 0.3290) ''BMD Film V1'')))
      = Inr (matrix_RGB_to_XYZ (projr (get (0.3127, 0.3290) ''BMD Film V1'')))
   \<and> \<not> isl (get (0.3127, 0.3290) ''ALEXA Wide Gamut RGB'')
   \<and> close_to (5 / 10 ^ 7)
        (projr (normalised_primary_matrix
           (primaries (projr (get (0.3127, 0.3290) ''ALEXA Wide Gamut RGB'')))
           (0.3127, 0.3290)))
        (matrix_RGB_to_XYZ (projr (get (0.3127, 0.3290) ''ALEXA Wide Gamut RGB'')))"
proof -
  have b: "\<not> isl (get (0.3127, 0.3290) ''BMD Film V1'')"
    using registered_built_at_standard_D65(2) by (simp add: get_def RGB_COLOURSPACES_def)
  have a: "\<not> isl (get (0.3127, 0.3290) ''ALEXA Wide Gamut RGB'')"
    using registered_built_at_standard_D65(1) by (simp add: get_def RGB_COLOURSPACES_def)
  from b have b': "get (0.3127, 0.3290) ''BMD Film V1'' =
      Inr (projr (get (0.3127, 0.3290) ''BMD Film V1''))" by simp
  from a have a': "get (0.3127, 0.3290) ''ALEXA Wide Gamut RGB'' =
      Inr (projr (get (0.3127, 0.3290) ''ALEXA Wide Gamut RGB''))" by simp
  have ne: "''BMD Film V1'' \<noteq> ''ALEXA Wide Gamut RGB''" by simp
  from rgb_to_xyz_matrix_derivation [OF b'] ne
  have derived: "normalised_primary_matrix
        (primaries (projr (get (0.3127, 0.3290) ''BMD Film V1'')))
        (whitepoint (projr (get (0.3127, 0.3290) ''BMD Film V1'')))
      = Inr (matrix_RGB_to_XYZ (projr (get (0.3127, 0.3290) ''BMD Film V1'')))"
    by (simp only: if_False)
  note alexa = rgb_to_xyz_matrix_derivation [OF a', unfolded if_P [OF refl]]
  from alexa [THEN conjunct2, THEN conjunct2, THEN conjunct2]
  have "close_to (5 / 10 ^ 7)
        (projr (normalised_primary_matrix
           (primaries (projr (get (0.3127, 0.3290) ''ALEXA Wide Gamut RGB'')))
           (0.3127, 0.3290)))
        (matrix_RGB_to_XYZ (projr (get (0.3127, 0.3290) ''ALEXA Wide Gamut RGB'')))" .
  with derived a b show ?thesis by blast
qed

end
